theory Spec2Isabelle
  imports Main "HOL-Library.Finite_Map"
begin

section \<open>JavaScript strings\<close>

text \<open>
  A JavaScript string is modelled as a \<open>string\<close>; one \<open>char\<close> stands for one code unit.
  \<open>indexOf\<close> is \<open>String.prototype.indexOf\<close>: the first index at which the argument occurs,
  or \<open>-1\<close> when it does not occur.
\<close>

fun indexOf :: "string \<Rightarrow> string \<Rightarrow> int" where
  "indexOf [] sub = (if sub = [] then 0 else - 1)"
| "indexOf (c # cs) sub =
     (if take (length sub) (c # cs) = sub then 0
      else (let r = indexOf cs sub in if r < 0 then - 1 else r + 1))"

definition bsl :: char where
  "bsl = CHR 0x5C"

definition dquote :: string where
  "dquote = [CHR 0x22]"

definition squote :: string where
  "squote = [CHR 0x27]"


section \<open>The JavaScript mode: its rich edit configuration\<close>

text \<open>
  The object literal handed to \<open>new RichEditSupport(this.getId(), {...})\<close> in the constructor
  of \<open>JSMode\<close>. Regular expressions are kept as their source text (a backslash is \<open>bsl\<close>);
  \<open>createWordRegExp('$')\<close> is kept as its argument. Of the enumeration
  \<open>Modes.IndentAction\<close> only the two members the table uses are declared.
\<close>

datatype IndentAction = IndentAction_None | IndentAction_IndentOutdent

record enter_action =
  indentAction :: IndentAction
  appendText :: "string option"
  removeText :: "nat option"

record on_enter_rule =
  beforeText :: string
  afterText :: "string option"
  action :: enter_action

record comments_configuration =
  lineComment :: string
  blockComment :: "string \<times> string"

record electric_bracket =
  tokenType :: string
  bracket_open :: string
  bracket_close :: string
  isElectric :: bool

record doc_comment =
  doc_scope :: string
  doc_open :: string
  doc_lineStart :: string
  doc_close :: string

record auto_closing_pair =
  pair_open :: string
  pair_close :: string
  notIn :: "string list option"

record rich_edit_configuration =
  wordPattern_allowed :: string
  comments :: comments_configuration
  brackets :: "(string \<times> string) list"
  onEnterRules :: "on_enter_rule list"
  electric_brackets :: "electric_bracket list"
  electric_docComment :: doc_comment
  autoClosingPairs :: "auto_closing_pair list"

definition jsdoc_open_line :: string where
  "jsdoc_open_line =
     ''^'' @ bsl # ''s*'' @ bsl # ''/'' @ bsl # ''*'' @ bsl # ''*(?!'' @ bsl # ''/)([^''
       @ bsl # ''*]|'' @ bsl # ''*(?!'' @ bsl # ''/))*$''"

definition jsdoc_close_after :: string where
  "jsdoc_close_after = ''^'' @ bsl # ''s*'' @ bsl # ''*'' @ bsl # ''/$''"

definition jsdoc_inner_line :: string where
  "jsdoc_inner_line =
     ''^('' @ bsl # ''t|('' @ bsl # '' '' @ bsl # '' ))*'' @ bsl # '' '' @ bsl # ''*(''
       @ bsl # '' ([^'' @ bsl # ''*]|'' @ bsl # ''*(?!'' @ bsl # ''/))*)?$''"

definition jsdoc_end_line :: string where
  "jsdoc_end_line =
     ''^('' @ bsl # ''t|('' @ bsl # '' '' @ bsl # '' ))*'' @ bsl # '' '' @ bsl # ''*''
       @ bsl # ''/'' @ bsl # ''s*$''"

definition JSMode_richEditSupport :: rich_edit_configuration where
  "JSMode_richEditSupport =
     \<lparr> wordPattern_allowed = ''$'',
       comments = \<lparr> lineComment = ''//'', blockComment = (''/*'', ''*/'') \<rparr>,
       brackets = [(''{'', ''}''), (''['', '']''), (''('', '')'')],
       onEnterRules =
         [ \<lparr> beforeText = jsdoc_open_line, afterText = Some jsdoc_close_after,
             action = \<lparr> indentAction = IndentAction_IndentOutdent,
                        appendText = Some '' * '', removeText = None \<rparr> \<rparr>,
           \<lparr> beforeText = jsdoc_open_line, afterText = None,
             action = \<lparr> indentAction = IndentAction_None,
                        appendText = Some '' * '', removeText = None \<rparr> \<rparr>,
           \<lparr> beforeText = jsdoc_inner_line, afterText = None,
             action = \<lparr> indentAction = IndentAction_None,
                        appendText = Some ''* '', removeText = None \<rparr> \<rparr>,
           \<lparr> beforeText = jsdoc_end_line, afterText = None,
             action = \<lparr> indentAction = IndentAction_None,
                        appendText = None, removeText = Some 1 \<rparr> \<rparr> ],
       electric_brackets =
         [ \<lparr> tokenType = ''delimiter.bracket.js'', bracket_open = ''{'', bracket_close = ''}'',
             isElectric = True \<rparr>,
           \<lparr> tokenType = ''delimiter.array.js'', bracket_open = ''['', bracket_close = '']'',
             isElectric = True \<rparr>,
           \<lparr> tokenType = ''delimiter.parenthesis.js'', bracket_open = ''('',
             bracket_close = '')'', isElectric = True \<rparr> ],
       electric_docComment =
         \<lparr> doc_scope = ''comment.doc'', doc_open = ''/**'', doc_lineStart = '' * '',
           doc_close = '' */'' \<rparr>,
       autoClosingPairs =
         [ \<lparr> pair_open = ''{'', pair_close = ''}'', notIn = None \<rparr>,
           \<lparr> pair_open = ''['', pair_close = '']'', notIn = None \<rparr>,
           \<lparr> pair_open = ''('', pair_close = '')'', notIn = None \<rparr>,
           \<lparr> pair_open = dquote, pair_close = dquote, notIn = Some [''string''] \<rparr>,
           \<lparr> pair_open = squote, pair_close = squote,
             notIn = Some [''string'', ''comment''] \<rparr> ] \<rparr>"


section \<open>The debug hover widget\<close>

text \<open>
  \<open>DebugHoverWidget\<close> of \<open>debugHover.ts\<close>. The editor, the tree and the debug service are
  not part of the sources: every call the widget makes to the editor or to its tree is
  appended to a trace, and what they answer is a parameter (\<open>hover_env\<close>). \<open>null\<close> is
  \<open>None\<close>. A method that throws a \<open>TypeError\<close> returns \<open>Threw\<close> with the fields as they
  were when it threw.
\<close>

record editor_position =
  lineNumber :: int
  column :: int

record editor_range =
  startLineNumber :: int
  startColumn :: int
  endLineNumber :: int
  endColumn :: int

definition getStartPosition :: "editor_range \<Rightarrow> editor_position" where
  "getStartPosition r = \<lparr> lineNumber = startLineNumber r, column = startColumn r \<rparr>"

record decoration =
  decoration_range :: editor_range
  className :: string

record expression =
  available :: bool
  reference :: int

datatype ui_call =
    AddContentWidget
  | DeltaDecorations "string list" "decoration list"
  | LayoutContentWidget
  | TreeSetInput expression
  | TreeLayout
  | RenderExpressionValue expression

record editor_model =
  associatedResource :: string
  getLineContent :: "int \<Rightarrow> string"

record stack_frame =
  source_uri :: string

text \<open>
  \<open>getModel\<close> is \<open>editor.getModel()\<close>, \<open>getFocusedStackFrame\<close> is
  \<open>debugService.getViewModel().getFocusedStackFrame()\<close>, and \<open>decorationIds\<close> gives the
  identifiers \<open>editor.deltaDecorations\<close> returns, which may depend on every call made so far.
\<close>

record hover_env =
  getModel :: "editor_model option"
  getFocusedStackFrame :: "stack_frame option"
  decorationIds :: "ui_call list \<Rightarrow> string list \<Rightarrow> decoration list \<Rightarrow> string list"

text \<open>
  The private fields of the widget, the part of the DOM and of the tree it writes, and the
  trace of its calls.
\<close>

record hover_widget =
  isVisible :: bool
  showAtPosition :: "editor_position option"
  highlightDecorations :: "string list"
  treeContainer_hidden :: bool
  valueContainer_hidden :: bool
  treeContainer_height :: "int option"
  tree_input :: "expression option"
  calls :: "ui_call list"

datatype 'a outcome = Returned 'a | Threw 'a

fun state_of :: "'a outcome \<Rightarrow> 'a" where
  "state_of (Returned s) = s"
| "state_of (Threw s) = s"

text \<open>What a promise delivers to its \<open>done\<close> callbacks.\<close>

datatype 'a completion = Completed 'a | Failed | Unsettled

datatype ContentWidgetPositionPreference = ABOVE | BELOW

record content_widget_position =
  position :: "editor_position option"
  preference :: "ContentWidgetPositionPreference list"

definition MAX_ELEMENTS_SHOWN :: int where
  "MAX_ELEMENTS_SHOWN = 18"

definition DebugHoverWidget_new :: hover_widget where
  "DebugHoverWidget_new =
     \<lparr> isVisible = False, showAtPosition = None, highlightDecorations = [],
       treeContainer_hidden = False, valueContainer_hidden = False,
       treeContainer_height = None, tree_input = None, calls = [AddContentWidget] \<rparr>"

definition deltaDecorations ::
  "hover_env \<Rightarrow> string list \<Rightarrow> decoration list \<Rightarrow> hover_widget \<Rightarrow> string list \<times> hover_widget"
where
  "deltaDecorations env oldIds newDecorations w =
     (decorationIds env (calls w) oldIds newDecorations,
      w\<lparr> calls := calls w @ [DeltaDecorations oldIds newDecorations] \<rparr>)"

definition layoutContentWidget :: "hover_widget \<Rightarrow> hover_widget" where
  "layoutContentWidget w = w\<lparr> calls := calls w @ [LayoutContentWidget] \<rparr>"

text \<open>
  \<open>doShow\<close>. The two fields are written before \<open>expression.reference\<close> is read, so a
  \<open>null\<close> expression throws after them. In the tree branch the source goes on in the
  continuation of \<open>tree.setInput\<close>, which is \<open>setInput_done\<close> below.
\<close>

definition doShow ::
  "editor_position option \<Rightarrow> expression option \<Rightarrow> bool \<Rightarrow> hover_widget \<Rightarrow> hover_widget outcome"
where
  "doShow pos expr forceValueHover w =
     (let w1 = w\<lparr> showAtPosition := pos, isVisible := True \<rparr> in
      case expr of
        None \<Rightarrow> Threw w1
      | Some e \<Rightarrow>
          if reference e > 0 \<and> \<not> forceValueHover then
            Returned (w1\<lparr> valueContainer_hidden := True, treeContainer_hidden := False,
                          tree_input := Some e, calls := calls w1 @ [TreeSetInput e] \<rparr>)
          else
            Returned (layoutContentWidget
              (w1\<lparr> treeContainer_hidden := True, valueContainer_hidden := False,
                   calls := calls w1 @ [RenderExpressionValue e] \<rparr>)))"

text \<open>
  \<open>layoutTree\<close>. \<open>visibleElementsCount\<close> is the number of times \<open>navigator.next()\<close>
  answers with an element, \<open>clientHeight\<close> is \<open>treeContainer.clientHeight\<close>.
\<close>

definition layoutTree :: "nat \<Rightarrow> int \<Rightarrow> hover_widget \<Rightarrow> hover_widget outcome" where
  "layoutTree visibleElementsCount clientHeight w =
     (if visibleElementsCount = 0 then doShow (showAtPosition w) (tree_input w) True w
      else
        (let height = min (int visibleElementsCount) MAX_ELEMENTS_SHOWN * 18 in
         if clientHeight \<noteq> height then
           Returned (w\<lparr> treeContainer_height := Some height, calls := calls w @ [TreeLayout] \<rparr>)
         else Returned w))"

text \<open>
  The continuation of \<open>tree.setInput(expression)\<close> in \<open>doShow\<close>: \<open>layoutTree\<close>, then
  \<open>editor.layoutContentWidget\<close>; an exception of \<open>layoutTree\<close> goes to
  \<open>errors.onUnexpectedError\<close>.
\<close>

definition setInput_done :: "nat \<Rightarrow> int \<Rightarrow> hover_widget \<Rightarrow> hover_widget" where
  "setInput_done visibleElementsCount clientHeight w =
     (case layoutTree visibleElementsCount clientHeight w of
        Returned w1 \<Rightarrow> layoutContentWidget w1
      | Threw w1 \<Rightarrow> w1)"

definition hide :: "hover_env \<Rightarrow> hover_widget \<Rightarrow> hover_widget" where
  "hide env w =
     (if \<not> isVisible w then w
      else
        (let (ids, w1) = deltaDecorations env (highlightDecorations w) [] (w\<lparr> isVisible := False \<rparr>)
         in layoutContentWidget (w1\<lparr> highlightDecorations := [] \<rparr>)))"

definition getPosition :: "hover_widget \<Rightarrow> content_widget_position option" where
  "getPosition w =
     (if isVisible w then
        Some \<lparr> position = showAtPosition w, preference = [ABOVE, BELOW] \<rparr>
      else None)"

text \<open>
  The \<open>done\<close> callback of \<open>showAt\<close>, run with the expression that \<open>getExpression\<close>
  delivered.
\<close>

definition hover_decoration :: "editor_position \<Rightarrow> string \<Rightarrow> string \<Rightarrow> decoration" where
  "hover_decoration pos lineContent hoveringOver =
     \<lparr> decoration_range =
         \<lparr> startLineNumber = lineNumber pos,
           startColumn = indexOf lineContent hoveringOver + 1,
           endLineNumber = lineNumber pos,
           endColumn = indexOf lineContent hoveringOver + 1 + int (length hoveringOver) \<rparr>,
       className = ''hoverHighlight'' \<rparr>"

definition showAt_done ::
  "hover_env \<Rightarrow> editor_position \<Rightarrow> string \<Rightarrow> string \<Rightarrow> expression option \<Rightarrow> hover_widget
     \<Rightarrow> hover_widget outcome"
where
  "showAt_done env pos lineContent hoveringOver expr w =
     (case expr of
        None \<Rightarrow> Returned (hide env w)
      | Some e \<Rightarrow>
          if \<not> available e then Returned (hide env w)
          else
            (let (ids, w1) = deltaDecorations env (highlightDecorations w)
                               [hover_decoration pos lineContent hoveringOver] w
             in doShow (Some pos) (Some e) False (w1\<lparr> highlightDecorations := ids \<rparr>)))"

text \<open>
  \<open>showAt\<close>. The list \<open>namesToFind\<close> is computed for \<open>getExpression\<close> alone, whose
  search runs in the debug service; \<open>getExpression\<close> is taken to return its promise (a
  focused stack frame has a session), and \<open>resolved\<close> is what that promise delivers. A
  rejected promise goes to \<open>errors.onUnexpectedError\<close>. With a \<open>null\<close> model the
  comparison of the two resources throws.
\<close>

definition showAt ::
  "hover_env \<Rightarrow> editor_range \<Rightarrow> string \<Rightarrow> expression option completion \<Rightarrow> hover_widget
     \<Rightarrow> hover_widget outcome"
where
  "showAt env rng hoveringOver resolved w =
     (let pos = getStartPosition rng in
      if hoveringOver = [] then Returned w
      else
        (case getFocusedStackFrame env of
           None \<Rightarrow> Returned w
         | Some focusedStackFrame \<Rightarrow>
             (case getModel env of
                None \<Rightarrow> Threw w
              | Some model \<Rightarrow>
                  if source_uri focusedStackFrame \<noteq> associatedResource model then Returned w
                  else
                    (let lineContent = getLineContent model (lineNumber pos) in
                     case resolved of
                       Completed expr \<Rightarrow> showAt_done env pos lineContent hoveringOver expr w
                     | Failed \<Rightarrow> Returned w
                     | Unsettled \<Rightarrow> Returned w))))"


subsection \<open>A concrete hover\<close>

definition hover_env0 :: hover_env where
  "hover_env0 =
     \<lparr> getModel = Some \<lparr> associatedResource = ''file:///a.js'',
                          getLineContent = (\<lambda>n. if n = 1 then ''x = a.foo + foo'' else []) \<rparr>,
       getFocusedStackFrame = Some \<lparr> source_uri = ''file:///a.js'' \<rparr>,
       decorationIds = (\<lambda>trace oldIds newDecorations. map (\<lambda>d. ''id'') newDecorations) \<rparr>"

definition hover_range0 :: editor_range where
  "hover_range0 = \<lparr> startLineNumber = 1, startColumn = 13, endLineNumber = 1, endColumn = 16 \<rparr>"

definition hover_expression0 :: expression where
  "hover_expression0 = \<lparr> available = True, reference = 0 \<rparr>"

definition hover_widget_shown :: hover_widget where
  "hover_widget_shown =
     state_of (showAt hover_env0 hover_range0 ''foo'' (Completed (Some hover_expression0))
       DebugHoverWidget_new)"


section \<open>The command line installer\<close>

text \<open>
  \<open>InstallAction\<close> (the second file of \<open>debugHover.ts\<close>). The file system, the child
  process and the message service are outside the sources: every call to them is appended to
  a trace, and what the operating system answers to a call is a parameter that may depend on
  the whole trace before it (\<open>node_env\<close>). A promise is run to its completion: it maps the
  trace so far to its outcome (\<open>Inl\<close> an error for a rejection) and the trace after it.
\<close>

datatype js_error =
    Errno string
  | Error string
  | JoinError "js_error list"

fun error_code :: "js_error \<Rightarrow> string option" where
  "error_code (Errno c) = Some c"
| "error_code (Error m) = None"
| "error_code (JoinError es) = None"

datatype Severity = Info | Warning

datatype message =
    Message_exists string
  | Message_success string

datatype sys_call =
    ReadFile string
  | Unlink string
  | Symlink string string
  | Lstat string
  | Readlink string
  | Exec string
  | ShowMessage Severity message

type_synonym 'a promise = "sys_call list \<Rightarrow> (js_error + 'a) \<times> sys_call list"

text \<open>
  \<open>source\<close> and \<open>isAvailable\<close> are the two constants of the module, computed when it is
  loaded. The answer of \<open>pfs_lstat\<close> is \<open>stat.isSymbolicLink()\<close>.
\<close>

record node_env =
  pfs_readFile :: "sys_call list \<Rightarrow> string \<Rightarrow> js_error + string"
  pfs_unlink :: "sys_call list \<Rightarrow> string \<Rightarrow> js_error + unit"
  pfs_symlink :: "sys_call list \<Rightarrow> string \<Rightarrow> string \<Rightarrow> js_error + unit"
  pfs_lstat :: "sys_call list \<Rightarrow> string \<Rightarrow> js_error + bool"
  pfs_readlink :: "sys_call list \<Rightarrow> string \<Rightarrow> js_error + string"
  cp_exec :: "sys_call list \<Rightarrow> string \<Rightarrow> js_error + unit"
  os_homedir :: string
  path_join :: "string \<Rightarrow> string \<Rightarrow> string"
  applicationName :: string
  darwinBundleIdentifier :: string
  source :: string
  isAvailable :: bool

definition TPromise_as :: "'a \<Rightarrow> 'a promise" where
  "TPromise_as v t = (Inr v, t)"

definition TPromise_wrapError :: "js_error \<Rightarrow> 'a promise" where
  "TPromise_wrapError e t = (Inl e, t)"

text \<open>\<open>p.then(f)\<close> and \<open>p.then(null, h)\<close>.\<close>

definition then_do :: "'a promise \<Rightarrow> ('a \<Rightarrow> 'b promise) \<Rightarrow> 'b promise" where
  "then_do p f t = (case p t of (Inr v, t1) \<Rightarrow> f v t1 | (Inl e, t1) \<Rightarrow> (Inl e, t1))"

definition then_catch :: "'a promise \<Rightarrow> (js_error \<Rightarrow> 'a promise) \<Rightarrow> 'a promise" where
  "then_catch p h t = (case p t of (Inr v, t1) \<Rightarrow> (Inr v, t1) | (Inl e, t1) \<Rightarrow> h e t1)"

text \<open>
  \<open>TPromise.join\<close>: every promise of the list is started, in order; the result is the list
  of their values, or a rejection when one of them is rejected.
\<close>

fun join_all :: "'a promise list \<Rightarrow> sys_call list \<Rightarrow> (js_error + 'a) list \<times> sys_call list" where
  "join_all [] t = ([], t)"
| "join_all (p # ps) t =
     (case p t of (r, t1) \<Rightarrow> (case join_all ps t1 of (rs, t2) \<Rightarrow> (r # rs, t2)))"

fun join_errors :: "(js_error + 'a) list \<Rightarrow> js_error list" where
  "join_errors [] = []"
| "join_errors (Inl e # rs) = e # join_errors rs"
| "join_errors (Inr v # rs) = join_errors rs"

fun join_values :: "(js_error + 'a) list \<Rightarrow> 'a list" where
  "join_values [] = []"
| "join_values (Inl e # rs) = join_values rs"
| "join_values (Inr v # rs) = v # join_values rs"

definition TPromise_join :: "'a promise list \<Rightarrow> 'a list promise" where
  "TPromise_join ps t =
     (case join_all ps t of
        (rs, t1) \<Rightarrow>
          if join_errors rs = [] then (Inr (join_values rs), t1)
          else (Inl (JoinError (join_errors rs)), t1))"

definition readFile :: "node_env \<Rightarrow> string \<Rightarrow> string promise" where
  "readFile env name t = (pfs_readFile env t name, t @ [ReadFile name])"

definition unlink :: "node_env \<Rightarrow> string \<Rightarrow> unit promise" where
  "unlink env path t = (pfs_unlink env t path, t @ [Unlink path])"

definition symlink :: "node_env \<Rightarrow> string \<Rightarrow> string \<Rightarrow> unit promise" where
  "symlink env src tgt t = (pfs_symlink env t src tgt, t @ [Symlink src tgt])"

definition lstat :: "node_env \<Rightarrow> string \<Rightarrow> bool promise" where
  "lstat env path t = (pfs_lstat env t path, t @ [Lstat path])"

definition readlink :: "node_env \<Rightarrow> string \<Rightarrow> string promise" where
  "readlink env path t = (pfs_readlink env t path, t @ [Readlink path])"

definition exec :: "node_env \<Rightarrow> string \<Rightarrow> unit promise" where
  "exec env command t = (cp_exec env t command, t @ [Exec command])"

definition messageService_show :: "Severity \<Rightarrow> message \<Rightarrow> unit promise" where
  "messageService_show sev msg t = (Inr (), t @ [ShowMessage sev msg])"

definition ignore :: "string \<Rightarrow> 'a \<Rightarrow> js_error \<Rightarrow> 'a promise" where
  "ignore code v err =
     (if error_code err = Some code then TPromise_as v else TPromise_wrapError err)"

definition target :: "node_env \<Rightarrow> string" where
  "target env = ''/usr/local/bin/'' @ applicationName env"

definition legacy_files :: "node_env \<Rightarrow> string list" where
  "legacy_files env =
     [ path_join env (os_homedir env) ''.bash_profile'',
       path_join env (os_homedir env) ''.bashrc'',
       path_join env (os_homedir env) ''.zshrc'' ]"

definition readOrEmpty :: "node_env \<Rightarrow> string \<Rightarrow> string promise" where
  "readOrEmpty env name = then_catch (readFile env name) (ignore ''ENOENT'' [])"

definition checkLegacy :: "node_env \<Rightarrow> string list promise" where
  "checkLegacy env =
     then_do (TPromise_join (map (readOrEmpty env) (legacy_files env)))
       (\<lambda>result.
          TPromise_as
            (foldl (\<lambda>acc (contents, index).
                      if indexOf contents (darwinBundleIdentifier env) > - 1
                      then acc @ [legacy_files env ! index] else acc)
               [] (zip result [0 ..< length result])))"

definition isInstalled :: "node_env \<Rightarrow> bool promise" where
  "isInstalled env =
     then_catch
       (then_do
          (then_do
             (then_do (lstat env (target env)) (\<lambda>stat. TPromise_as stat))
             (\<lambda>_. readlink env (target env)))
          (\<lambda>link. TPromise_as (link = source env)))
       (ignore ''ENOENT'' False)"

definition createBinFolder_command :: string where
  "createBinFolder_command =
     ''osascript -e '' @ dquote @ ''do shell script '' @ [bsl] @ dquote
       @ ''mkdir -p /usr/local/bin && chown '' @ [bsl] @ dquote
       @ '' & (do shell script ('' @ [bsl] @ dquote @ ''whoami'' @ [bsl] @ dquote @ '')) & ''
       @ [bsl] @ dquote @ '' /usr/local/bin'' @ [bsl] @ dquote
       @ '' with administrator privileges'' @ dquote"

definition cantCreateBinFolder :: js_error where
  "cantCreateBinFolder = Error (''Unable to create '' @ squote @ ''/usr/local/bin'' @ squote @ ''.'')"

definition createBinFolder :: "node_env \<Rightarrow> unit promise" where
  "createBinFolder env =
     then_catch (exec env createBinFolder_command) (\<lambda>_. TPromise_wrapError cantCreateBinFolder)"

definition createSymlink :: "node_env \<Rightarrow> unit promise" where
  "createSymlink env =
     then_do (then_catch (unlink env (target env)) (ignore ''ENOENT'' ()))
       (\<lambda>_. symlink env (source env) (target env))"

text \<open>
  \<open>run\<close>. The warning carries the first legacy file and an action to edit it; the actions
  run only when the user picks them.
\<close>

definition run :: "node_env \<Rightarrow> unit promise" where
  "run env =
     then_do (checkLegacy env)
       (\<lambda>files.
          if length files > 0 then
            then_do (messageService_show Warning (Message_exists (files ! 0)))
              (\<lambda>_. TPromise_as ())
          else
            then_do
              (then_do (isInstalled env)
                 (\<lambda>isInstalled.
                    if \<not> isAvailable env \<or> isInstalled then TPromise_as ()
                    else
                      then_catch (createSymlink env)
                        (\<lambda>err.
                           if error_code err = Some ''EACCES'' \<or> error_code err = Some ''ENOENT''
                           then then_do (createBinFolder env) (\<lambda>_. createSymlink env)
                           else TPromise_wrapError err)))
              (\<lambda>_. messageService_show Info (Message_success (applicationName env))))"


text \<open>
  For the statements about \<open>checkLegacy\<close>: whether a string occurs in another, what the
  operating system answers when \<open>checkLegacy\<close>, started after the trace \<open>t\<close>, reads its
  \<open>i\<close>-th file, and the contents \<open>checkLegacy\<close> takes that file to have.
\<close>

definition occurs_in :: "string \<Rightarrow> string \<Rightarrow> bool" where
  "occurs_in sub s = list_ex (\<lambda>j. take (length sub) (drop j s) = sub) [0 ..< Suc (length s)]"

definition legacy_read :: "node_env \<Rightarrow> sys_call list \<Rightarrow> nat \<Rightarrow> js_error + string" where
  "legacy_read env t i =
     pfs_readFile env (t @ map ReadFile (take i (legacy_files env))) (legacy_files env ! i)"

definition legacy_contents :: "node_env \<Rightarrow> sys_call list \<Rightarrow> nat \<Rightarrow> string" where
  "legacy_contents env t i = (case legacy_read env t i of Inr c \<Rightarrow> c | Inl e \<Rightarrow> [])"

definition missing_or_read :: "js_error + string \<Rightarrow> bool" where
  "missing_or_read r = (case r of Inr c \<Rightarrow> True | Inl e \<Rightarrow> error_code e = Some ''ENOENT'')"

definition is_link_change :: "sys_call \<Rightarrow> bool" where
  "is_link_change c =
     (case c of Unlink p \<Rightarrow> True | Symlink s p \<Rightarrow> True | Exec k \<Rightarrow> True | _ \<Rightarrow> False)"


subsection \<open>Three concrete machines\<close>

text \<open>
  On the first, no profile file exists, nothing is installed, and \<open>/usr/local/bin\<close> cannot be
  written before the administrator's command has run. On the second, \<open>.bashrc\<close> holds the
  legacy alias.
\<close>

definition node_env0 :: node_env where
  "node_env0 =
     \<lparr> pfs_readFile = (\<lambda>t name. Inl (Errno ''ENOENT'')),
       pfs_unlink = (\<lambda>t path. Inl (Errno ''ENOENT'')),
       pfs_symlink = (\<lambda>t src tgt.
          if Exec createBinFolder_command \<in> set t then Inr () else Inl (Errno ''EACCES'')),
       pfs_lstat = (\<lambda>t path. Inl (Errno ''ENOENT'')),
       pfs_readlink = (\<lambda>t path. Inl (Errno ''ENOENT'')),
       cp_exec = (\<lambda>t command. Inr ()),
       os_homedir = ''/h'',
       path_join = (\<lambda>a b. a @ ''/'' @ b),
       applicationName = ''code'',
       darwinBundleIdentifier = ''com.ms'',
       source = ''/app/bin/code'',
       isAvailable = True \<rparr>"

definition node_env1 :: node_env where
  "node_env1 =
     node_env0 \<lparr> pfs_readFile :=
       (\<lambda>t name. if name = ''/h/.bashrc'' then Inr ''open -b com.ms'' else Inl (Errno ''ENOENT'')) \<rparr>"


text \<open>
  On the third, no profile file exists and \<open>/usr/local/bin/code\<close> is a regular file:
  \<open>lstat\<close> succeeds with a stat that is no symbolic link, and \<open>readlink\<close> fails with
  \<open>EINVAL\<close>.
\<close>

definition node_env2 :: node_env where
  "node_env2 =
     node_env0 \<lparr> pfs_unlink := (\<lambda>t path. Inr ()),
                 pfs_lstat := (\<lambda>t path. Inr False),
                 pfs_readlink := (\<lambda>t path. Inl (Errno ''EINVAL'')) \<rparr>"


section \<open>Plain objects used as dictionaries\<close>

text \<open>
  The four private dictionaries of \<open>ModeServiceImpl\<close> are plain objects created by \<open>{}\<close>, read
  and written by \<open>obj[key]\<close> and tested by \<open>obj.hasOwnProperty(key)\<close>. Such an object has its
  own properties and a prototype, \<open>Object.prototype\<close> as long as \<open>prototype\<close> is \<open>None\<close>.

  \<^item> \<open>obj.hasOwnProperty\<close> is found like any other property: an own property of that name
    hides the method of \<open>Object.prototype\<close>. The values the service stores are modes and
    promises, none of which can be called, so the call throws a \<open>TypeError\<close>
    (\<open>Not_a_function\<close>). Otherwise the method tells whether the key is an own property; the
    read \<open>obj[key]\<close> that follows a positive answer gives the value of that property.
  \<^item> \<open>__proto__\<close> is an accessor of \<open>Object.prototype\<close>: \<open>obj['__proto__'] = v\<close>, for an
    object \<open>v\<close>, makes \<open>v\<close> the prototype of \<open>obj\<close> and adds no own property, and
    \<open>obj['__proto__']\<close> reads the prototype. (Only an object that already had an own property
    of that name, which no assignment can give it, would behave like for any other key.)
    A mode or a promise put in the place of the prototype inherits from \<open>Object.prototype\<close>
    itself, so \<open>hasOwnProperty\<close> is still found.
  \<^item> \<open>delete obj[key]\<close> removes an own property and does nothing when there is none.
\<close>

record 'a js_object =
  own :: "string \<rightharpoonup> 'a"
  prototype :: "'a option"

definition new_object :: "'a js_object" where
  "new_object = \<lparr> own = Map.empty, prototype = None \<rparr>"

datatype 'a own_property = Not_a_function | No_own_property | Own_property 'a

definition hasOwnProperty :: "'a js_object \<Rightarrow> string \<Rightarrow> 'a own_property" where
  "hasOwnProperty obj key =
     (if own obj ''hasOwnProperty'' \<noteq> None then Not_a_function
      else case own obj key of None \<Rightarrow> No_own_property | Some v \<Rightarrow> Own_property v)"

definition js_assign :: "'a js_object \<Rightarrow> string \<Rightarrow> 'a \<Rightarrow> 'a js_object" where
  "js_assign obj key v =
     (if key = ''__proto__'' \<and> own obj key = None then obj\<lparr> prototype := Some v \<rparr>
      else obj\<lparr> own := (own obj)(key \<mapsto> v) \<rparr>)"

definition js_delete :: "'a js_object \<Rightarrow> string \<Rightarrow> 'a js_object" where
  "js_delete obj key = obj\<lparr> own := (own obj)(key := None) \<rparr>"

text \<open>
  \<open>obj[key]\<close> as far as it gives a value stored by the service: an own property, or, for
  \<open>__proto__\<close>, the object put in the place of the prototype. (\<open>None\<close>: \<open>undefined\<close>, or a
  member inherited from the prototype.)
\<close>

definition js_get :: "'a js_object \<Rightarrow> string \<Rightarrow> 'a option" where
  "js_get obj key =
     (case own obj key of
        Some v \<Rightarrow> Some v
      | None \<Rightarrow> if key = ''__proto__'' then prototype obj else None)"


section \<open>Mode options\<close>

text \<open>
  The options of a mode are a value of type \<open>any\<close>. \<open>json\<close> holds the values a configuration
  is made of; an object is a finite map from its keys to their values, so the order of the
  keys plays no role. Numbers are integers (a configuration is JSON text, which has no
  \<open>NaN\<close>), and values do not change: a caller that changes an object after it has passed
  it is not modelled. Reading \<open>this._config[modeId]\<close> can also give
  what no caller has stored there: \<open>undefined\<close>, the object \<open>Object.prototype\<close> (under the key
  \<open>__proto__\<close>) or one of its function members (under \<open>constructor\<close>, \<open>toString\<close>, ...).
\<close>

datatype json =
    JNull
  | JBool bool
  | JNumber int
  | JString string
  | JArray "json list"
  | JObject "(string, json) fmap"

datatype js_value =
    Undefined
  | Json json
  | Object_prototype
  | Object_member string

definition Object_prototype_members :: "string list" where
  "Object_prototype_members =
     [''constructor'', ''hasOwnProperty'', ''isPrototypeOf'', ''propertyIsEnumerable'',
      ''toLocaleString'', ''toString'', ''valueOf'', ''__defineGetter__'', ''__defineSetter__'',
      ''__lookupGetter__'', ''__lookupSetter__'']"

definition inherited_from_Object :: "string \<Rightarrow> js_value" where
  "inherited_from_Object key =
     (if key \<in> set Object_prototype_members then Object_member key else Undefined)"

text \<open>
  The dictionary \<open>_config\<close>. Its prototype is \<open>Object.prototype\<close> (\<open>None\<close>) or the plain object
  an assignment to \<open>__proto__\<close> has put in its place. \<open>config_read\<close> is \<open>this._config[key]\<close>: an
  own property, else for \<open>__proto__\<close> the prototype, else what the prototype and then
  \<open>Object.prototype\<close> have under the key.

  \<open>config_assign\<close> is \<open>this._config[key] = v\<close>. The setter of \<open>__proto__\<close> ignores a value that
  is no object. Of the objects only the plain ones are modelled, and \<open>Object.prototype\<close>
  itself: \<open>configureModeById\<close>, the only writer, stores under \<open>__proto__\<close> a plain object
  (lemma \<open>newOptions_plain\<close>), so that an array, a function or \<open>null\<close> in this place, which
  are left out here, do not occur.
\<close>

record config_object =
  config_own :: "string \<rightharpoonup> js_value"
  config_prototype :: "(string, json) fmap option"

definition new_config :: config_object where
  "new_config = \<lparr> config_own = Map.empty, config_prototype = None \<rparr>"

definition config_read :: "config_object \<Rightarrow> string \<Rightarrow> js_value" where
  "config_read obj key =
     (case config_own obj key of
        Some v \<Rightarrow> v
      | None \<Rightarrow>
          (case config_prototype obj of
             None \<Rightarrow> if key = ''__proto__'' then Object_prototype else inherited_from_Object key
           | Some m \<Rightarrow>
               if key = ''__proto__'' then Json (JObject m)
               else (case fmlookup m key of
                       Some j \<Rightarrow> Json j
                     | None \<Rightarrow> inherited_from_Object key)))"

definition config_assign :: "config_object \<Rightarrow> string \<Rightarrow> js_value \<Rightarrow> config_object" where
  "config_assign obj key v =
     (if key = ''__proto__'' \<and> config_own obj key = None then
        (case v of
           Json (JObject m) \<Rightarrow> obj\<lparr> config_prototype := Some m \<rparr>
         | Object_prototype \<Rightarrow> obj\<lparr> config_prototype := None \<rparr>
         | _ \<Rightarrow> obj)
      else obj\<lparr> config_own := (config_own obj)(key \<mapsto> v) \<rparr>)"

text \<open>\<open>v || {}\<close>: \<open>undefined\<close>, \<open>null\<close>, \<open>false\<close>, \<open>0\<close> and the empty string are falsy.\<close>

definition truthy :: "js_value \<Rightarrow> bool" where
  "truthy v =
     (case v of
        Undefined \<Rightarrow> False
      | Json JNull \<Rightarrow> False
      | Json (JBool b) \<Rightarrow> b
      | Json (JNumber n) \<Rightarrow> n \<noteq> 0
      | Json (JString s) \<Rightarrow> s \<noteq> []
      | _ \<Rightarrow> True)"

definition or_empty :: "js_value \<Rightarrow> js_value" where
  "or_empty v = (if truthy v then v else Json (JObject fmempty))"

text \<open>
  \<open>configureModeById\<close> calls \<open>Objects.mixin\<close>, \<open>Objects.clone\<close> and \<open>Objects.equals\<close> of
  \<open>vs/base/common/objects\<close>, which are not among the sources; it ``merges the given options
  over the previously stored options'' and compares the result with them. The definitions
  that follow give these functions, and \<open>Types.isObject\<close> which they use, on the values
  above.
\<close>


text \<open>
  Modelled from the spec: \<open>Objects.clone\<close> (missing). It copies a value; the copy of
  \<open>Object.prototype\<close>, which has no enumerable key, is an empty object.
\<close>

definition Objects_clone :: "js_value \<Rightarrow> js_value" where
  "Objects_clone v = (case v of Object_prototype \<Rightarrow> Json (JObject fmempty) | _ \<Rightarrow> v)"

text \<open>
  Modelled from the spec: the merge inside \<open>Objects.mixin\<close> (missing). \<open>merge_value v old\<close> is
  what a key holds after the merge when the source has \<open>v\<close> under it and the destination
  had \<open>old\<close>: two objects are merged key by key, in any other case the value of the source
  replaces the one of the destination. \<open>mixin_keys\<close> is the destination after every key of
  the source has been written over it.
\<close>

primrec merge_value :: "json \<Rightarrow> json option \<Rightarrow> json" where
  "merge_value JNull old = JNull"
| "merge_value (JBool b) old = JBool b"
| "merge_value (JNumber n) old = JNumber n"
| "merge_value (JString s) old = JString s"
| "merge_value (JArray xs) old = JArray xs"
| "merge_value (JObject sm) old =
     (case old of
        Some (JObject dm) \<Rightarrow>
          JObject (fmadd dm (fmmap_keys (\<lambda>key f. f (fmlookup dm key)) (fmmap merge_value sm)))
      | _ \<Rightarrow> JObject sm)"

definition mixin_keys :: "(string, json) fmap \<Rightarrow> (string, json) fmap \<Rightarrow> (string, json) fmap" where
  "mixin_keys dm sm = fmadd dm (fmmap_keys (\<lambda>key v. merge_value v (fmlookup dm key)) sm)"

text \<open>
  Modelled from the spec: \<open>Objects.mixin(destination, source)\<close> (missing). It gives back the
  source when the destination is no object, and otherwise the destination with the keys of
  the source merged into it; a source that is no object, or has no key, leaves the
  destination as it is. (Merging into \<open>Object.prototype\<close> itself would change that object
  for every other object; \<open>configureModeById\<close> merges into a clone.)
\<close>

definition Objects_mixin :: "js_value \<Rightarrow> js_value \<Rightarrow> js_value" where
  "Objects_mixin destination src =
     (case destination of
        Json (JObject dm) \<Rightarrow>
          (case src of
             Json (JObject sm) \<Rightarrow> Json (JObject (mixin_keys dm sm))
           | _ \<Rightarrow> destination)
      | Object_prototype \<Rightarrow> Object_prototype
      | _ \<Rightarrow> src)"

text \<open>
  Modelled from the spec: \<open>Objects.equals\<close> (missing). It compares two values by their
  contents: for two objects the same keys, whatever their order, with equal values.
  \<open>Object.prototype\<close> and an empty object, two objects without keys, are equal.
\<close>

definition no_keys :: "js_value \<Rightarrow> bool" where
  "no_keys v = (v = Object_prototype \<or> v = Json (JObject fmempty))"

definition Objects_equals :: "js_value \<Rightarrow> js_value \<Rightarrow> bool" where
  "Objects_equals one other = (one = other \<or> no_keys one \<and> no_keys other)"


section \<open>The mode service\<close>

text \<open>
  \<open>ModeServiceImpl\<close>. What lies outside the sources is either a parameter (\<open>mode_env\<close>: the
  language registry \<open>LanguageExtensions\<close>, the modes registry and the class
  \<open>FrankensteinMode\<close>) or happens from outside (the plugin host getting ready, a compatibility
  mode created by the thread service or failing). Objects have an identity: a mode carries
  the reference it was allocated at, and an activation promise is a reference into
  \<open>promises\<close>. Next to the fields of the class the state keeps what the service has caused
  outside itself: the instances created by \<open>threadService.createInstance\<close>, the events
  passed to \<open>pluginService.activateByEvent\<close>, and the calls of \<open>registerSupport\<close> and
  \<open>configSupport.configure\<close> on modes.

  A promise that is already complete runs a callback given to \<open>then\<close> at once, which is
  what \<open>getMode\<close> relies on (``Try to do it synchronously''). The registry stays the same
  during the life of a service. A method that throws leaves the state it has reached
  (\<open>Throw\<close>); the only exception the methods themselves can raise is the \<open>TypeError\<close> of
  \<open>hasOwnProperty\<close>.

  A private method is written without its leading underscore: \<open>_createMode\<close> is
  \<open>createMode\<close>, \<open>_getOrCreateFrankensteinMode\<close> is \<open>getOrCreateFrankensteinMode\<close>,
  \<open>_createModeDescriptor\<close> is \<open>createModeDescriptor\<close>, and \<open>_getOrCreateMode\<close>, which has
  a public namesake, is \<open>getOrCreateMode_private\<close>.
\<close>

datatype ('r, 's) js_result = Return 'r 's | Throw 's

fun result_state :: "('r, 's) js_result \<Rightarrow> 's" where
  "result_state (Return r s) = s"
| "result_state (Throw s) = s"

fun result_value :: "('r, 's) js_result \<Rightarrow> 'r option" where
  "result_value (Return r s) = Some r"
| "result_value (Throw s) = None"

record mode_descriptor =
  descriptor_id :: string
  workerParticipants :: "(string \<times> string) list"

text \<open>What the instances of a mode class offer.\<close>

record mode_class =
  class_configSupport :: bool
  class_registerSupport :: bool

record mode =
  mode_ref :: nat
  descriptor :: mode_descriptor
  configSupport :: bool
  registerSupport :: bool

definition mode_id :: "mode \<Rightarrow> string" where
  "mode_id m = descriptor_id (descriptor m)"

text \<open>
  The state of an activation promise; while it is pending it holds the continuations of
  \<open>registerModeSupport\<close> that wait for it.
\<close>

datatype 'c activation = Pending "(string \<times> string \<times> 'c) list" | Fulfilled mode | Rejected

text \<open>
  What \<open>_getOrCreateMode\<close> and \<open>getOrCreateMode\<close> return: \<open>TPromise.as(mode)\<close>, an
  activation promise, a promise that waits for \<open>pluginService.onReady()\<close>, or the promise
  of a callback of \<open>onReady().then\<close> that has thrown, which is rejected.
\<close>

datatype mode_promise = Complete mode | Activation nat | AfterReady | Rejected_by_TypeError

datatype disposable = EmptyDisposable | SupportDisposable nat string

datatype deferred_call =
    ByIds string
  | ByLanguageName string
  | ByFilenameOrFirstLine string "string option"

record mode_env =
  extractModeIds :: "string \<Rightarrow> string list"
  getModeIdsFromLanguageName :: "string \<Rightarrow> string list"
  getModeIdsFromFilenameOrFirstLine :: "string \<Rightarrow> string option \<Rightarrow> string list"
  getRegisteredModes :: "string list"
  getCompatMode :: "string \<Rightarrow> (string \<times> string) option"
  getWorkerParticipants :: "string \<Rightarrow> (string \<times> string) list"
  FrankensteinMode :: mode_class

record 'c mode_service =
  activationPromises :: "nat js_object"
  instantiatedModes :: "mode js_object"
  frankensteinModes :: "mode js_object"
  config :: config_object
  promises :: "nat \<rightharpoonup> 'c activation"
  next_ref :: nat
  created :: "mode list"
  pendingCreations :: "(string \<times> nat) list"
  activated :: "string list"
  registered :: "(nat \<times> string \<times> 'c) list"
  configured :: "(nat \<times> js_value) list"
  pluginsReady :: bool
  deferred :: "deferred_call list"

definition ModeServiceImpl_new :: "'c mode_service" where
  "ModeServiceImpl_new =
     \<lparr> activationPromises = new_object, instantiatedModes = new_object,
       frankensteinModes = new_object, config = new_config, promises = Map.empty,
       next_ref = 0, created = [], pendingCreations = [], activated = [], registered = [],
       configured = [], pluginsReady = False, deferred = [] \<rparr>"

definition getConfigurationForMode :: "'c mode_service \<Rightarrow> string \<Rightarrow> js_value" where
  "getConfigurationForMode s modeId = or_empty (config_read (config s) modeId)"

definition getModeId :: "mode_env \<Rightarrow> string \<Rightarrow> string option" where
  "getModeId env commaSeparated =
     (case extractModeIds env commaSeparated of [] \<Rightarrow> None | modeId # rest \<Rightarrow> Some modeId)"

definition getModeIdByLanguageName :: "mode_env \<Rightarrow> string \<Rightarrow> string option" where
  "getModeIdByLanguageName env languageName =
     (case getModeIdsFromLanguageName env languageName of
        [] \<Rightarrow> None | modeId # rest \<Rightarrow> Some modeId)"

definition getModeIdByFilenameOrFirstLine ::
  "mode_env \<Rightarrow> string \<Rightarrow> string option \<Rightarrow> string option"
where
  "getModeIdByFilenameOrFirstLine env filename firstLine =
     (case getModeIdsFromFilenameOrFirstLine env filename firstLine of
        [] \<Rightarrow> None | modeId # rest \<Rightarrow> Some modeId)"

text \<open>\<open>modeId || 'plaintext'\<close>: \<open>null\<close> and the empty string are falsy.\<close>

definition or_plaintext :: "string option \<Rightarrow> string" where
  "or_plaintext modeId =
     (case modeId of None \<Rightarrow> ''plaintext'' | Some m \<Rightarrow> if m = [] then ''plaintext'' else m)"

definition createModeDescriptor :: "mode_env \<Rightarrow> string \<Rightarrow> mode_descriptor" where
  "createModeDescriptor env modeId =
     \<lparr> descriptor_id = modeId, workerParticipants = getWorkerParticipants env modeId \<rparr>"

text \<open>\<open>threadService.createInstance\<close>: a new object of the class, recorded in \<open>created\<close>.\<close>

definition createInstance ::
  "mode_class \<Rightarrow> mode_descriptor \<Rightarrow> 'c mode_service \<Rightarrow> mode \<times> 'c mode_service"
where
  "createInstance cls modeDescriptor s =
     (let m = \<lparr> mode_ref = next_ref s, descriptor = modeDescriptor,
                 configSupport = class_configSupport cls,
                 registerSupport = class_registerSupport cls \<rparr>
      in (m, s\<lparr> next_ref := Suc (next_ref s), created := created s @ [m] \<rparr>))"

text \<open>
  \<open>_getOrCreateFrankensteinMode\<close>. The read \<open>this._frankensteinModes[modeId]\<close> that ends the
  method gives the own property found by \<open>hasOwnProperty\<close>, or the mode just assigned (for
  \<open>__proto__\<close> the prototype just set; lemma \<open>js_get_assign\<close>).
\<close>

definition getOrCreateFrankensteinMode ::
  "mode_env \<Rightarrow> string \<Rightarrow> 'c mode_service \<Rightarrow> (mode, 'c mode_service) js_result"
where
  "getOrCreateFrankensteinMode env modeId s =
     (case hasOwnProperty (frankensteinModes s) modeId of
        Not_a_function \<Rightarrow> Throw s
      | No_own_property \<Rightarrow>
          (let (m, s1) = createInstance (FrankensteinMode env) (createModeDescriptor env modeId) s
           in Return m (s1\<lparr> frankensteinModes := js_assign (frankensteinModes s1) modeId m \<rparr>))
      | Own_property m \<Rightarrow> Return m s)"

definition activateByEvent :: "string \<Rightarrow> 'c mode_service \<Rightarrow> 'c mode_service" where
  "activateByEvent activationEvent s = s\<lparr> activated := activated s @ [activationEvent] \<rparr>"

text \<open>
  \<open>mode.registerSupport ? mode.registerSupport(support, callback) : EmptyDisposable\<close>, the
  callback of \<open>registerModeSupport\<close>.
\<close>

definition registerSupport_on ::
  "string \<Rightarrow> string \<Rightarrow> 'c \<Rightarrow> mode \<Rightarrow> 'c mode_service \<Rightarrow> disposable \<times> 'c mode_service"
where
  "registerSupport_on modeId support callback m s =
     (if registerSupport m then
        (SupportDisposable (mode_ref m) support,
         s\<lparr> registered := registered s @ [(mode_ref m, support, callback)] \<rparr>)
      else (EmptyDisposable, s))"

text \<open>Completing an activation promise runs the continuations that wait for it, in order.\<close>

definition complete_promise :: "nat \<Rightarrow> mode \<Rightarrow> 'c mode_service \<Rightarrow> 'c mode_service" where
  "complete_promise p m s =
     (let waiting = (case promises s p of Some (Pending ws) \<Rightarrow> ws | _ \<Rightarrow> []);
          s1 = s\<lparr> promises := (promises s)(p \<mapsto> Fulfilled m) \<rparr>
      in foldl (\<lambda>s2 (modeId, support, callback).
                  snd (registerSupport_on modeId support callback m s2)) s1 waiting)"

text \<open>
  The continuation of \<open>_createMode(modeId)\<close> in \<open>_getOrCreateMode\<close>: the mode is assigned
  to the key, the key is deleted from the activation promises, and the promise is
  completed with \<open>this._instantiatedModes[modeId]\<close>, the mode just assigned.
\<close>

definition createMode_done :: "string \<Rightarrow> nat \<Rightarrow> mode \<Rightarrow> 'c mode_service \<Rightarrow> 'c mode_service" where
  "createMode_done modeId p m s =
     complete_promise p m
       (s\<lparr> instantiatedModes := js_assign (instantiatedModes s) modeId m,
           activationPromises := js_delete (activationPromises s) modeId \<rparr>)"

text \<open>
  \<open>_createMode\<close>. With a compatibility mode the result waits for the plugin host and the
  thread service (\<open>None\<close>; the rest is \<open>compatMode_created\<close> or \<open>compatMode_failed\<close>); otherwise
  it is \<open>TPromise.as(frankensteinMode)\<close>.
\<close>

definition createMode ::
  "mode_env \<Rightarrow> string \<Rightarrow> 'c mode_service \<Rightarrow> (mode option, 'c mode_service) js_result"
where
  "createMode env modeId s =
     (let activationEvent = ''onLanguage:'' @ modeId in
      case getCompatMode env modeId of
        Some compatModeData \<Rightarrow> Return None (activateByEvent activationEvent s)
      | None \<Rightarrow>
          (case getOrCreateFrankensteinMode env modeId s of
             Throw s1 \<Rightarrow> Throw s1
           | Return frankensteinMode s1 \<Rightarrow>
               Return (Some frankensteinMode) (activateByEvent activationEvent s1)))"

definition getOrCreateMode_private ::
  "mode_env \<Rightarrow> string \<Rightarrow> 'c mode_service \<Rightarrow> (mode_promise, 'c mode_service) js_result"
where
  "getOrCreateMode_private env modeId s =
     (case hasOwnProperty (instantiatedModes s) modeId of
        Not_a_function \<Rightarrow> Throw s
      | Own_property m \<Rightarrow> Return (Complete m) s
      | No_own_property \<Rightarrow>
          (case hasOwnProperty (activationPromises s) modeId of
             Not_a_function \<Rightarrow> Throw s
           | Own_property p \<Rightarrow> Return (Activation p) s
           | No_own_property \<Rightarrow>
               (let p = next_ref s;
                    s1 = s\<lparr> next_ref := Suc p, promises := (promises s)(p \<mapsto> Pending []),
                            activationPromises := js_assign (activationPromises s) modeId p \<rparr>
                in case createMode env modeId s1 of
                     Throw s2 \<Rightarrow> Throw s2
                   | Return (Some m) s2 \<Rightarrow> Return (Activation p) (createMode_done modeId p m s2)
                   | Return None s2 \<Rightarrow>
                       Return (Activation p)
                         (s2\<lparr> pendingCreations := pendingCreations s2 @ [(modeId, p)] \<rparr>))))"

text \<open>
  The rest of \<open>_createMode\<close> for a compatibility mode whose creation was started for the
  activation promise \<open>p\<close>: the thread service has created an instance of the class \<open>cls\<close>,
  which is configured when it has a \<open>configSupport\<close> and then handed to the continuation in
  \<open>_getOrCreateMode\<close>; or the activation or the creation has failed, which rejects \<open>p\<close>.
  Both do nothing unless that creation is still under way.
\<close>

definition compatMode_created ::
  "mode_env \<Rightarrow> string \<Rightarrow> nat \<Rightarrow> mode_class \<Rightarrow> 'c mode_service \<Rightarrow> 'c mode_service"
where
  "compatMode_created env modeId p cls s =
     (if (modeId, p) \<in> set (pendingCreations s) then
        (let s0 = s\<lparr> pendingCreations := removeAll (modeId, p) (pendingCreations s) \<rparr>;
             (compatMode, s1) = createInstance cls (createModeDescriptor env modeId) s0;
             s2 = (if configSupport compatMode then
                     s1\<lparr> configured := configured s1
                           @ [(mode_ref compatMode, getConfigurationForMode s1 modeId)] \<rparr>
                   else s1)
         in createMode_done modeId p compatMode s2)
      else s)"


text \<open>
  The three public \<open>getOrCreateMode\<close> methods run their body once
  \<open>pluginService.onReady()\<close> is complete; before that the call is kept in \<open>deferred\<close>. The
  body is a callback of \<open>then\<close>: when it throws, the promise returned is rejected.
\<close>

definition run_deferred ::
  "mode_env \<Rightarrow> deferred_call \<Rightarrow> 'c mode_service \<Rightarrow> (mode_promise, 'c mode_service) js_result"
where
  "run_deferred env call s =
     (case call of
        ByIds commaSeparated \<Rightarrow>
          getOrCreateMode_private env (or_plaintext (getModeId env commaSeparated)) s
      | ByLanguageName languageName \<Rightarrow>
          getOrCreateMode_private env
            (or_plaintext (getModeIdByLanguageName env languageName)) s
      | ByFilenameOrFirstLine filename firstLine \<Rightarrow>
          getOrCreateMode_private env
            (or_plaintext (getModeIdByFilenameOrFirstLine env filename firstLine)) s)"

definition as_promise ::
  "(mode_promise, 'c mode_service) js_result \<Rightarrow> mode_promise \<times> 'c mode_service"
where
  "as_promise r = (case r of Return pr s \<Rightarrow> (pr, s) | Throw s \<Rightarrow> (Rejected_by_TypeError, s))"

definition when_ready ::
  "mode_env \<Rightarrow> deferred_call \<Rightarrow> 'c mode_service \<Rightarrow> mode_promise \<times> 'c mode_service"
where
  "when_ready env call s =
     (if pluginsReady s then as_promise (run_deferred env call s)
      else (AfterReady, s\<lparr> deferred := deferred s @ [call] \<rparr>))"

definition getOrCreateMode ::
  "mode_env \<Rightarrow> string \<Rightarrow> 'c mode_service \<Rightarrow> mode_promise \<times> 'c mode_service"
where
  "getOrCreateMode env commaSeparated = when_ready env (ByIds commaSeparated)"



text \<open>\<open>pluginService.onReady()\<close> completes: the waiting callbacks run, in order.\<close>

definition plugins_ready :: "mode_env \<Rightarrow> 'c mode_service \<Rightarrow> 'c mode_service" where
  "plugins_ready env s =
     foldl (\<lambda>s1 call. result_state (run_deferred env call s1))
       (s\<lparr> pluginsReady := True, deferred := [] \<rparr>) (deferred s)"

text \<open>The mode a promise holds now, if it is complete.\<close>

definition resolved_mode :: "'c mode_service \<Rightarrow> mode_promise \<Rightarrow> mode option" where
  "resolved_mode s pr =
     (case pr of
        Complete m \<Rightarrow> Some m
      | Activation p \<Rightarrow> (case promises s p of Some (Fulfilled m) \<Rightarrow> Some m | _ \<Rightarrow> None)
      | AfterReady \<Rightarrow> None
      | Rejected_by_TypeError \<Rightarrow> None)"

text \<open>
  \<open>getMode\<close>: the first of the extracted mode ids that is instantiated; failing that, for a
  list that names \<open>plaintext\<close>, what \<open>getOrCreateMode\<close> delivers at once, or \<open>null\<close>.
\<close>

fun first_instantiated :: "'c mode_service \<Rightarrow> string list \<Rightarrow> mode own_property" where
  "first_instantiated s [] = No_own_property"
| "first_instantiated s (modeId # modeIds) =
     (case hasOwnProperty (instantiatedModes s) modeId of
        Not_a_function \<Rightarrow> Not_a_function
      | Own_property m \<Rightarrow> Own_property m
      | No_own_property \<Rightarrow> first_instantiated s modeIds)"

definition getMode ::
  "mode_env \<Rightarrow> string \<Rightarrow> 'c mode_service \<Rightarrow> (mode option, 'c mode_service) js_result"
where
  "getMode env commaSeparated s =
     (let modeIds = extractModeIds env commaSeparated in
      case first_instantiated s modeIds of
        Not_a_function \<Rightarrow> Throw s
      | Own_property m \<Rightarrow> Return (Some m) s
      | No_own_property \<Rightarrow>
          if ''plaintext'' \<in> set modeIds then
            (let (pr, s1) = getOrCreateMode env commaSeparated s
             in Return (resolved_mode s1 pr) s1)
          else Return None s)"

definition configureModeById ::
  "mode_env \<Rightarrow> string \<Rightarrow> js_value \<Rightarrow> 'c mode_service \<Rightarrow> 'c mode_service outcome"
where
  "configureModeById env modeId options s =
     (let previousOptions = or_empty (config_read (config s) modeId);
          newOptions = Objects_mixin (Objects_clone previousOptions) options
      in if Objects_equals previousOptions newOptions then Returned s
         else
           (let s1 = s\<lparr> config := config_assign (config s) modeId newOptions \<rparr>
            in case getMode env modeId s1 of
                 Throw s2 \<Rightarrow> Threw s2
               | Return None s2 \<Rightarrow> Returned s2
               | Return (Some m) s2 \<Rightarrow>
                   if configSupport m then
                     Returned
                       (s2\<lparr> configured := configured s2
                             @ [(mode_ref m, getConfigurationForMode s2 modeId)] \<rparr>)
                   else Returned s2))"

definition configureMode ::
  "mode_env \<Rightarrow> string \<Rightarrow> js_value \<Rightarrow> 'c mode_service \<Rightarrow> 'c mode_service outcome"
where
  "configureMode env mimetype options s =
     (case getModeId env mimetype of
        None \<Rightarrow> Returned s
      | Some modeId \<Rightarrow>
          if modeId = [] then Returned s else configureModeById env modeId options s)"

text \<open>
  \<open>configureAllModes\<close>: \<open>config\<close> is falsy (\<open>None\<close>) or an object, given by what
  \<open>config[modeIdentifier]\<close> reads; \<open>forEach\<close> ends with the first call that throws.
\<close>

fun configure_each ::
  "mode_env \<Rightarrow> (string \<Rightarrow> js_value) \<Rightarrow> string list \<Rightarrow> 'c mode_service \<Rightarrow> 'c mode_service outcome"
where
  "configure_each env configuration [] s = Returned s"
| "configure_each env configuration (modeIdentifier # modes) s =
     (case configureModeById env modeIdentifier (configuration modeIdentifier) s of
        Threw s1 \<Rightarrow> Threw s1
      | Returned s1 \<Rightarrow> configure_each env configuration modes s1)"

definition configureAllModes ::
  "mode_env \<Rightarrow> (string \<Rightarrow> js_value) option \<Rightarrow> 'c mode_service \<Rightarrow> 'c mode_service outcome"
where
  "configureAllModes env cfg s =
     (case cfg of
        None \<Rightarrow> Returned s
      | Some configuration \<Rightarrow> configure_each env configuration (getRegisteredModes env) s)"

text \<open>
  \<open>registerModeSupport\<close>. Its result is what the promise inside the returned disposable
  holds at the end of the call; disposing the returned object disposes that value. On a
  pending activation promise the continuation waits. \<open>_getOrCreateMode\<close> is called
  directly, so what it throws is thrown by \<open>registerModeSupport\<close>.
\<close>

definition registerModeSupport ::
  "mode_env \<Rightarrow> string \<Rightarrow> string \<Rightarrow> 'c \<Rightarrow> 'c mode_service
     \<Rightarrow> (disposable completion, 'c mode_service) js_result"
where
  "registerModeSupport env modeId support callback s =
     (case getOrCreateMode_private env modeId s of
        Throw s1 \<Rightarrow> Throw s1
      | Return pr s1 \<Rightarrow>
          (case pr of
             Complete m \<Rightarrow>
               (let (d, s2) = registerSupport_on modeId support callback m s1
                in Return (Completed d) s2)
           | Activation p \<Rightarrow>
               (case promises s1 p of
                  Some (Fulfilled m) \<Rightarrow>
                    (let (d, s2) = registerSupport_on modeId support callback m s1
                     in Return (Completed d) s2)
                | Some (Pending ws) \<Rightarrow>
                    Return Unsettled
                      (s1\<lparr> promises :=
                             (promises s1)(p \<mapsto> Pending (ws @ [(modeId, support, callback)])) \<rparr>)
                | Some Rejected \<Rightarrow> Return Failed s1
                | None \<Rightarrow> Return Unsettled s1)
           | AfterReady \<Rightarrow> Return Unsettled s1
           | Rejected_by_TypeError \<Rightarrow> Return Failed s1))"

text \<open>
  The public registrations. A callback is the support it returns: one given by the caller,
  or one built by a class of \<open>vs/editor/common/modes/supports\<close> from the mode id and a
  contribution.
\<close>

datatype 'a support_callback = Given 'a | Built string string 'a

definition registerCodeLensSupport where
  "registerCodeLensSupport env modeId support =
     registerModeSupport env modeId ''codeLensSupport'' (Given support)"

definition registerRichEditSupport where
  "registerRichEditSupport env modeId support =
     registerModeSupport env modeId ''richEditSupport'' (Built ''RichEditSupport'' modeId support)"

definition registerDeclarativeDeclarationSupport where
  "registerDeclarativeDeclarationSupport env modeId contribution =
     registerModeSupport env modeId ''declarationSupport''
       (Built ''DeclarationSupport'' modeId contribution)"

definition registerExtraInfoSupport where
  "registerExtraInfoSupport env modeId support =
     registerModeSupport env modeId ''extraInfoSupport'' (Given support)"

definition registerFormattingSupport where
  "registerFormattingSupport env modeId support =
     registerModeSupport env modeId ''formattingSupport'' (Given support)"

definition registerInplaceReplaceSupport where
  "registerInplaceReplaceSupport env modeId support =
     registerModeSupport env modeId ''inplaceReplaceSupport'' (Given support)"

definition registerOccurrencesSupport where
  "registerOccurrencesSupport env modeId support =
     registerModeSupport env modeId ''occurrencesSupport'' (Given support)"

definition registerOutlineSupport where
  "registerOutlineSupport env modeId support =
     registerModeSupport env modeId ''outlineSupport'' (Given support)"

definition registerDeclarativeParameterHintsSupport where
  "registerDeclarativeParameterHintsSupport env modeId support =
     registerModeSupport env modeId ''parameterHintsSupport''
       (Built ''ParameterHintsSupport'' modeId support)"

definition registerQuickFixSupport where
  "registerQuickFixSupport env modeId support =
     registerModeSupport env modeId ''quickFixSupport'' (Given support)"

definition registerDeclarativeReferenceSupport where
  "registerDeclarativeReferenceSupport env modeId contribution =
     registerModeSupport env modeId ''referenceSupport''
       (Built ''ReferenceSupport'' modeId contribution)"

definition registerRenameSupport where
  "registerRenameSupport env modeId support =
     registerModeSupport env modeId ''renameSupport'' (Given support)"

definition registerDeclarativeSuggestSupport where
  "registerDeclarativeSuggestSupport env modeId declaration =
     registerModeSupport env modeId ''suggestSupport'' (Built ''SuggestSupport'' modeId declaration)"

definition registerTokenizationSupport where
  "registerTokenizationSupport env modeId callback =
     registerModeSupport env modeId ''tokenizationSupport'' callback"

text \<open>The instance \<open>createInstance\<close> allocates at the reference \<open>r\<close>.\<close>

definition new_mode :: "mode_class \<Rightarrow> mode_env \<Rightarrow> string \<Rightarrow> nat \<Rightarrow> mode" where
  "new_mode cls env modeId r =
     \<lparr> mode_ref = r, descriptor = createModeDescriptor env modeId,
       configSupport = class_configSupport cls, registerSupport = class_registerSupport cls \<rparr>"


text \<open>An object without the own properties \<open>hasOwnProperty\<close> and \<open>__proto__\<close>.\<close>

definition proto_absent :: "'a js_object \<Rightarrow> bool" where
  "proto_absent obj = (own obj ''hasOwnProperty'' = None \<and> own obj ''__proto__'' = None)"

subsection \<open>A concrete mode service\<close>

text \<open>
  A registry that knows \<open>plaintext\<close> and \<open>html\<close> (by id and by mime type) and the
  compatibility mode \<open>javascript\<close>; a service whose plugin host is ready; and what becomes of
  it when \<open>html\<close> is requested, when \<open>javascript\<close> is requested, and when the creation of the
  compatibility mode then succeeds or fails.
\<close>

definition split_commas :: "string \<Rightarrow> string list" where
  "split_commas x = (if x = ''text/html,text/plain'' then [''text/html'', ''text/plain''] else [x])"

definition known_mode :: "string \<Rightarrow> string option" where
  "known_mode x =
     (if x = ''text/html'' \<or> x = ''html'' then Some ''html''
      else if x = ''text/plain'' \<or> x = ''plaintext'' then Some ''plaintext''
      else if x = ''javascript'' then Some ''javascript''
      else None)"

definition mode_env0 :: mode_env where
  "mode_env0 =
     \<lparr> extractModeIds = (\<lambda>x. List.map_filter known_mode (split_commas x)),
       getModeIdsFromLanguageName = (\<lambda>x. if x = ''HTML'' then [''html''] else []),
       getModeIdsFromFilenameOrFirstLine = (\<lambda>f l. if f = ''a.js'' then [''javascript''] else []),
       getRegisteredModes = [''plaintext'', ''html'', ''javascript''],
       getCompatMode = (\<lambda>x. if x = ''javascript'' then Some (''vs/languages/javascript'', ''JSMode'')
                            else None),
       getWorkerParticipants = (\<lambda>x. []),
       FrankensteinMode = \<lparr> class_configSupport = False, class_registerSupport = True \<rparr> \<rparr>"

definition mode_service_ready :: "nat support_callback mode_service" where
  "mode_service_ready = plugins_ready mode_env0 ModeServiceImpl_new"



definition js_mode :: mode where
  "js_mode =
     \<lparr> mode_ref = 1, descriptor = \<lparr> descriptor_id = ''javascript'', workerParticipants = [] \<rparr>,
       configSupport = True, registerSupport = False \<rparr>"

definition mode_service_js_waiting :: "nat support_callback mode_service" where
  "mode_service_js_waiting = snd (getOrCreateMode mode_env0 ''javascript'' mode_service_ready)"

definition mode_service_js :: "nat support_callback mode_service" where
  "mode_service_js =
     compatMode_created mode_env0 ''javascript'' 0
       \<lparr> class_configSupport = True, class_registerSupport = False \<rparr> mode_service_js_waiting"


text \<open>
  Two registrations for the mode id \<open>__proto__\<close> on a new service, the second one after the
  first: of a code lens support both times, and of a tokenization support followed by a
  rich edit configuration, as \<open>doRegisterMonarchDefinition\<close> does them.
\<close>

definition proto_mode :: "nat \<Rightarrow> mode" where
  "proto_mode r =
     \<lparr> mode_ref = r, descriptor = \<lparr> descriptor_id = ''__proto__'', workerParticipants = [] \<rparr>,
       configSupport = False, registerSupport = True \<rparr>"

definition proto_codeLens_once ::
  "(disposable completion, nat support_callback mode_service) js_result"
where
  "proto_codeLens_once = registerCodeLensSupport mode_env0 ''__proto__'' 7 ModeServiceImpl_new"

definition proto_codeLens_twice ::
  "(disposable completion, nat support_callback mode_service) js_result"
where
  "proto_codeLens_twice =
     registerCodeLensSupport mode_env0 ''__proto__'' 7 (result_state proto_codeLens_once)"

definition proto_tokenization ::
  "(disposable completion, nat support_callback mode_service) js_result"
where
  "proto_tokenization =
     registerTokenizationSupport mode_env0 ''__proto__'' (Given 7) ModeServiceImpl_new"

definition proto_richEdit ::
  "(disposable completion, nat support_callback mode_service) js_result"
where
  "proto_richEdit =
     registerRichEditSupport mode_env0 ''__proto__'' 8 (result_state proto_tokenization)"

text \<open>
  Options \<open>{tabSize: 4}\<close>, and the service with the mode \<open>javascript\<close> after it has been
  configured with them.
\<close>

definition options0 :: js_value where
  "options0 = Json (JObject (fmupd ''tabSize'' (JNumber 4) fmempty))"

definition mode_service_js_configured :: "nat support_callback mode_service" where
  "mode_service_js_configured =
     state_of (configureModeById mode_env0 ''javascript'' options0 mode_service_js)"



text \<open>
  A registry with a compatibility mode for every mode id, two requests for \<open>__proto__\<close> on a
  new service with that registry, and the service after the thread service has created
  the mode of the first request and then the mode of the second.
\<close>

definition mode_env1 :: mode_env where
  "mode_env1 = mode_env0 \<lparr> getCompatMode := (\<lambda>x. Some (''vs/languages/any'', ''AnyMode'')) \<rparr>"

definition proto_compat_once :: "(mode_promise, nat support_callback mode_service) js_result" where
  "proto_compat_once = getOrCreateMode_private mode_env1 ''__proto__'' ModeServiceImpl_new"

definition proto_compat_twice :: "(mode_promise, nat support_callback mode_service) js_result" where
  "proto_compat_twice =
     getOrCreateMode_private mode_env1 ''__proto__'' (result_state proto_compat_once)"

definition proto_compat_created :: "nat support_callback mode_service" where
  "proto_compat_created =
     compatMode_created mode_env1 ''__proto__'' 1
       \<lparr> class_configSupport = False, class_registerSupport = False \<rparr>
       (compatMode_created mode_env1 ''__proto__'' 0
          \<lparr> class_configSupport = False, class_registerSupport = False \<rparr>
          (result_state proto_compat_twice))"

text \<open>\<open>_createMode\<close> for \<open>__proto__\<close> on a new service, and once more after that.\<close>

definition proto_createMode_once ::
  "(mode option, nat support_callback mode_service) js_result"
where
  "proto_createMode_once = createMode mode_env0 ''__proto__'' ModeServiceImpl_new"

definition proto_createMode_twice ::
  "(mode option, nat support_callback mode_service) js_result"
where
  "proto_createMode_twice =
     createMode mode_env0 ''__proto__'' (result_state proto_createMode_once)"

text \<open>
  A service on which a support has been registered for a mode id \<open>hasOwnProperty\<close>, after
  the plugin host got ready.
\<close>

definition mode_service_shadowed :: "nat support_callback mode_service" where
  "mode_service_shadowed =
     result_state (registerCodeLensSupport mode_env0 ''hasOwnProperty'' 7 mode_service_ready)"


section \<open>Properties of the JavaScript mode\<close>

text \<open>
  C8. The rich edit support of \<open>JSMode\<close> is the fixed table: line comment \<open>//\<close>, block
  comment \<open>/*\<close> .. \<open>*/\<close>, the three bracket pairs, exactly five auto-closing pairs (braces,
  square brackets, parentheses, the double quote not inside strings, the single quote not
  inside strings or comments) and exactly four on-enter rules for JSDoc comments, given
  here with the source text of their regular expressions written out character by
  character (\<open>CHR 0x5C\<close> is the backslash): after \<open>/**\<close> and before \<open>*/\<close> indent and outdent
  and append \<open>' * '\<close>; after \<open>/**\<close> append \<open>' * '\<close>; after a line \<open>' * ...'\<close> append \<open>'* '\<close>; after
  a line \<open>' */'\<close> remove one character.
\<close>

theorem JSMode_richEditSupport_table:
  "comments JSMode_richEditSupport = \<lparr> lineComment = ''//'', blockComment = (''/*'', ''*/'') \<rparr>
   \<and> brackets JSMode_richEditSupport = [(''{'', ''}''), (''['', '']''), (''('', '')'')]
   \<and> length (autoClosingPairs JSMode_richEditSupport) = 5
   \<and> autoClosingPairs JSMode_richEditSupport
       = [ \<lparr> pair_open = ''{'', pair_close = ''}'', notIn = None \<rparr>,
           \<lparr> pair_open = ''['', pair_close = '']'', notIn = None \<rparr>,
           \<lparr> pair_open = ''('', pair_close = '')'', notIn = None \<rparr>,
           \<lparr> pair_open = [CHR 0x22], pair_close = [CHR 0x22], notIn = Some [''string''] \<rparr>,
           \<lparr> pair_open = [CHR 0x27], pair_close = [CHR 0x27],
             notIn = Some [''string'', ''comment''] \<rparr> ]
   \<and> length (onEnterRules JSMode_richEditSupport) = 4
   \<and> onEnterRules JSMode_richEditSupport
       = [ \<lparr> beforeText =
               ''^'' @ CHR 0x5C # ''s*'' @ CHR 0x5C # ''/'' @ CHR 0x5C # ''*'' @ CHR 0x5C
                 # ''*(?!'' @ CHR 0x5C # ''/)([^'' @ CHR 0x5C # ''*]|'' @ CHR 0x5C # ''*(?!''
                 @ CHR 0x5C # ''/))*$'',
             afterText = Some (''^'' @ CHR 0x5C # ''s*'' @ CHR 0x5C # ''*'' @ CHR 0x5C # ''/$''),
             action = \<lparr> indentAction = IndentAction_IndentOutdent,
                        appendText = Some '' * '', removeText = None \<rparr> \<rparr>,
           \<lparr> beforeText =
               ''^'' @ CHR 0x5C # ''s*'' @ CHR 0x5C # ''/'' @ CHR 0x5C # ''*'' @ CHR 0x5C
                 # ''*(?!'' @ CHR 0x5C # ''/)([^'' @ CHR 0x5C # ''*]|'' @ CHR 0x5C # ''*(?!''
                 @ CHR 0x5C # ''/))*$'',
             afterText = None,
             action = \<lparr> indentAction = IndentAction_None,
                        appendText = Some '' * '', removeText = None \<rparr> \<rparr>,
           \<lparr> beforeText =
               ''^('' @ CHR 0x5C # ''t|('' @ CHR 0x5C # '' '' @ CHR 0x5C # '' ))*'' @ CHR 0x5C
                 # '' '' @ CHR 0x5C # ''*('' @ CHR 0x5C # '' ([^'' @ CHR 0x5C # ''*]|''
                 @ CHR 0x5C # ''*(?!'' @ CHR 0x5C # ''/))*)?$'',
             afterText = None,
             action = \<lparr> indentAction = IndentAction_None,
                        appendText = Some ''* '', removeText = None \<rparr> \<rparr>,
           \<lparr> beforeText =
               ''^('' @ CHR 0x5C # ''t|('' @ CHR 0x5C # '' '' @ CHR 0x5C # '' ))*'' @ CHR 0x5C
                 # '' '' @ CHR 0x5C # ''*'' @ CHR 0x5C # ''/'' @ CHR 0x5C # ''s*$'',
             afterText = None,
             action = \<lparr> indentAction = IndentAction_None,
                        appendText = None, removeText = Some 1 \<rparr> \<rparr> ]
   \<and> map (\<lambda>r. length (beforeText r)) (onEnterRules JSMode_richEditSupport) = [34, 34, 40, 23]"
  by (simp add: JSMode_richEditSupport_def dquote_def squote_def jsdoc_open_line_def
      jsdoc_close_after_def jsdoc_inner_line_def jsdoc_end_line_def bsl_def)

section \<open>Properties of \<open>indexOf\<close>\<close>

lemma indexOf_lower: "- 1 \<le> indexOf s sub"
  by (induction s) (auto simp: Let_def)

lemma indexOf_found:
  "0 \<le> indexOf s sub \<Longrightarrow> take (length sub) (drop (nat (indexOf s sub)) s) = sub"
proof (induction s)
  case Nil
  then show ?case by (simp split: if_splits)
next
  case (Cons c cs)
  show ?case
  proof (cases "take (length sub) (c # cs) = sub")
    case True
    then show ?thesis by simp
  next
    case False
    with Cons.prems have nn: "0 \<le> indexOf cs sub"
      by (simp add: Let_def split: if_splits)
    with False have "indexOf (c # cs) sub = indexOf cs sub + 1"
      by (simp add: Let_def)
    moreover from nn have "nat (indexOf cs sub + 1) = Suc (nat (indexOf cs sub))"
      by simp
    ultimately show ?thesis using Cons.IH [OF nn] by simp
  qed
qed

lemma indexOf_first:
  "j < nat (indexOf s sub) \<Longrightarrow> take (length sub) (drop j s) \<noteq> sub"
proof (induction s arbitrary: j)
  case Nil
  then show ?case by (simp split: if_splits)
next
  case (Cons c cs)
  show ?case
  proof (cases "take (length sub) (c # cs) = sub")
    case True
    with Cons.prems show ?thesis by simp
  next
    case False
    show ?thesis
    proof (cases j)
      case 0
      with False show ?thesis by simp
    next
      case (Suc k)
      from Cons.prems False have pos: "0 \<le> indexOf cs sub"
        by (simp add: Let_def split: if_splits)
      with False have "indexOf (c # cs) sub = indexOf cs sub + 1"
        by (simp add: Let_def)
      with Cons.prems Suc pos have "k < nat (indexOf cs sub)" by simp
      from Cons.IH [OF this] Suc show ?thesis by simp
    qed
  qed
qed

lemma indexOf_absent:
  "indexOf s sub < 0 \<Longrightarrow> take (length sub) (drop j s) \<noteq> sub"
proof (induction s arbitrary: j)
  case Nil
  then show ?case by (auto split: if_splits)
next
  case (Cons c cs)
  from Cons.prems have ne: "take (length sub) (c # cs) \<noteq> sub" and neg: "indexOf cs sub < 0"
    by (auto simp: Let_def split: if_splits)
  show ?case
  proof (cases j)
    case 0
    with ne show ?thesis by simp
  next
    case (Suc k)
    with Cons.IH [OF neg, of k] show ?thesis by simp
  qed
qed


section \<open>Properties of the debug hover widget\<close>

lemma hide_not_visible: "\<not> isVisible w \<Longrightarrow> hide env w = w"
  by (simp add: hide_def)

lemma hide_visible:
  "isVisible w \<Longrightarrow>
     hide env w =
       w\<lparr> isVisible := False, highlightDecorations := [],
          calls := calls w @ [DeltaDecorations (highlightDecorations w) [], LayoutContentWidget] \<rparr>"
  by (simp add: hide_def deltaDecorations_def layoutContentWidget_def)

lemma hide_invisible: "\<not> isVisible (hide env w)"
  by (cases "isVisible w") (simp_all add: hide_visible hide_not_visible)

lemma hide_showAtPosition: "showAtPosition (hide env w) = showAtPosition w"
  by (cases "isVisible w") (simp_all add: hide_visible hide_not_visible)

lemma doShow_Some:
  "doShow pos (Some e) force w =
     Returned (if reference e > 0 \<and> \<not> force
       then w\<lparr> showAtPosition := pos, isVisible := True, valueContainer_hidden := True,
               treeContainer_hidden := False, tree_input := Some e,
               calls := calls w @ [TreeSetInput e] \<rparr>
       else w\<lparr> showAtPosition := pos, isVisible := True, treeContainer_hidden := True,
               valueContainer_hidden := False,
               calls := calls w @ [RenderExpressionValue e, LayoutContentWidget] \<rparr>)"
  by (simp add: doShow_def layoutContentWidget_def Let_def)

lemma doShow_None: "doShow pos None force w = Threw (w\<lparr> showAtPosition := pos, isVisible := True \<rparr>)"
  by (simp add: doShow_def Let_def)

lemma doShow_position: "showAtPosition (state_of (doShow pos expr force w)) = pos"
  by (cases expr) (simp_all add: doShow_Some doShow_None)

lemma doShow_visible: "isVisible (state_of (doShow pos expr force w))"
  by (cases expr) (simp_all add: doShow_Some doShow_None)

lemma layoutTree_position: "showAtPosition (state_of (layoutTree n h w)) = showAtPosition w"
  by (simp add: layoutTree_def doShow_position Let_def)

lemma setInput_done_position: "showAtPosition (setInput_done n h w) = showAtPosition w"
proof (cases "layoutTree n h w")
  case (Returned w1)
  with layoutTree_position [of n h w] show ?thesis
    by (simp add: setInput_done_def layoutContentWidget_def)
next
  case (Threw w1)
  with layoutTree_position [of n h w] show ?thesis
    by (simp add: setInput_done_def)
qed

lemma showAt_passes:
  assumes "hoveringOver \<noteq> []" and "getFocusedStackFrame env = Some f"
    and "getModel env = Some m" and "source_uri f = associatedResource m"
  shows "showAt env rng hoveringOver (Completed expr) w =
           showAt_done env (getStartPosition rng)
             (getLineContent m (lineNumber (getStartPosition rng))) hoveringOver expr w"
  using assms by (simp add: showAt_def Let_def)

lemma showAt_done_available:
  assumes "available e"
  shows "showAt_done env pos line hoveringOver (Some e) w =
           doShow (Some pos) (Some e) False
             (w\<lparr> calls := calls w @
                    [DeltaDecorations (highlightDecorations w) [hover_decoration pos line hoveringOver]],
                 highlightDecorations :=
                    decorationIds env (calls w) (highlightDecorations w)
                      [hover_decoration pos line hoveringOver] \<rparr>)"
  using assms by (simp add: showAt_done_def deltaDecorations_def)


text \<open>
  C4. \<open>showAt\<close> returns with the widget and the trace of calls unchanged whenever the
  hovered word is empty, there is no focused stack frame, or the source of the focused
  stack frame is not the resource of the editor's model. Past that guard, when the
  expression delivered is \<open>null\<close> or not available, \<open>showAt\<close> does what \<open>hide\<close> does:
  the widget is not visible afterwards, it holds no decoration it did not hold before, and
  no decoration is added to the editor.
\<close>

theorem showAt_guard:
  "((hoveringOver = [] \<or> getFocusedStackFrame env = None
      \<or> (\<exists>f m. getFocusedStackFrame env = Some f \<and> getModel env = Some m
             \<and> source_uri f \<noteq> associatedResource m))
     \<longrightarrow> showAt env rng hoveringOver resolved w = Returned w)
   \<and> ((hoveringOver \<noteq> [] \<and> getFocusedStackFrame env = Some f \<and> getModel env = Some m
        \<and> source_uri f = associatedResource m
        \<and> (expr = None \<or> (\<exists>e. expr = Some e \<and> \<not> available e)))
     \<longrightarrow> showAt env rng hoveringOver (Completed expr) w = Returned (hide env w)
         \<and> \<not> isVisible (hide env w)
         \<and> highlightDecorations (hide env w) = (if isVisible w then [] else highlightDecorations w)
         \<and> (\<forall>ids d ds. DeltaDecorations ids (d # ds) \<in> set (calls (hide env w))
               \<longrightarrow> DeltaDecorations ids (d # ds) \<in> set (calls w)))"
proof (intro conjI impI)
  assume "hoveringOver = [] \<or> getFocusedStackFrame env = None
      \<or> (\<exists>f m. getFocusedStackFrame env = Some f \<and> getModel env = Some m
             \<and> source_uri f \<noteq> associatedResource m)"
  then show "showAt env rng hoveringOver resolved w = Returned w"
    by (auto simp: showAt_def Let_def)
next
  assume a: "hoveringOver \<noteq> [] \<and> getFocusedStackFrame env = Some f \<and> getModel env = Some m
        \<and> source_uri f = associatedResource m
        \<and> (expr = None \<or> (\<exists>e. expr = Some e \<and> \<not> available e))"
  then have "showAt env rng hoveringOver (Completed expr) w =
      showAt_done env (getStartPosition rng)
        (getLineContent m (lineNumber (getStartPosition rng))) hoveringOver expr w"
    by (simp add: showAt_passes)
  moreover from a have "showAt_done env (getStartPosition rng)
        (getLineContent m (lineNumber (getStartPosition rng))) hoveringOver expr w
      = Returned (hide env w)"
    by (auto simp: showAt_done_def)
  ultimately show "showAt env rng hoveringOver (Completed expr) w = Returned (hide env w)"
    by simp
next
  show "\<not> isVisible (hide env w)" by (rule hide_invisible)
next
  show "highlightDecorations (hide env w) = (if isVisible w then [] else highlightDecorations w)"
    by (simp add: hide_visible hide_not_visible)
next
  show "\<forall>ids d ds. DeltaDecorations ids (d # ds) \<in> set (calls (hide env w))
               \<longrightarrow> DeltaDecorations ids (d # ds) \<in> set (calls w)"
    by (cases "isVisible w") (simp_all add: hide_visible hide_not_visible)
qed

theorem showAt_guard_witness:
  "showAt hover_env0 hover_range0 [] (Completed (Some hover_expression0)) hover_widget_shown
     = Returned hover_widget_shown
   \<and> showAt hover_env0 hover_range0 ''foo'' (Completed None) hover_widget_shown
     = Returned (hide hover_env0 hover_widget_shown)
   \<and> \<not> isVisible (hide hover_env0 hover_widget_shown)
   \<and> isVisible hover_widget_shown
   \<and> highlightDecorations hover_widget_shown = [''id'']
   \<and> highlightDecorations (hide hover_env0 hover_widget_shown) = []"
  using showAt_guard [of "[]" hover_env0 hover_range0 "Completed (Some hover_expression0)"
      hover_widget_shown "\<lparr> source_uri = ''file:///a.js'' \<rparr>"
      "\<lparr> associatedResource = ''file:///a.js'',
         getLineContent = (\<lambda>n. if n = 1 then ''x = a.foo + foo'' else []) \<rparr>" None]
    showAt_guard [of "''foo''" hover_env0 hover_range0 "Completed None"
      hover_widget_shown "\<lparr> source_uri = ''file:///a.js'' \<rparr>"
      "\<lparr> associatedResource = ''file:///a.js'',
         getLineContent = (\<lambda>n. if n = 1 then ''x = a.foo + foo'' else []) \<rparr>" None]
  by (simp add: hover_env0_def hover_widget_shown_def hover_range0_def hover_expression0_def
      showAt_def showAt_done_def doShow_def deltaDecorations_def layoutContentWidget_def
      DebugHoverWidget_new_def getStartPosition_def hide_def Let_def)

text \<open>
  C6. \<open>getPosition\<close> answers \<open>null\<close> when the widget is not visible, and otherwise the
  field \<open>showAtPosition\<close> with the preference \<open>[ABOVE, BELOW]\<close>. That field is the position
  the widget was last shown at: \<open>doShow\<close>, and so a successful \<open>showAt\<close> (at the start of
  the hovered range), writes it and makes the widget visible, while \<open>layoutTree\<close>, the
  continuation of \<open>tree.setInput\<close> and \<open>hide\<close> leave it as it is. After \<open>hide\<close>, and for a
  new widget, the answer is \<open>null\<close>.
\<close>

theorem getPosition_last_shown:
  "(isVisible w \<longrightarrow>
      getPosition w = Some \<lparr> position = showAtPosition w, preference = [ABOVE, BELOW] \<rparr>)
   \<and> (\<not> isVisible w \<longrightarrow> getPosition w = None)
   \<and> getPosition (state_of (doShow (Some p) (Some e) force w))
       = Some \<lparr> position = Some p, preference = [ABOVE, BELOW] \<rparr>
   \<and> (hoveringOver \<noteq> [] \<and> getFocusedStackFrame env = Some f \<and> getModel env = Some m
        \<and> source_uri f = associatedResource m \<and> available e
      \<longrightarrow> getPosition (state_of (showAt env rng hoveringOver (Completed (Some e)) w))
          = Some \<lparr> position = Some (getStartPosition rng), preference = [ABOVE, BELOW] \<rparr>)
   \<and> showAtPosition (state_of (layoutTree n h w)) = showAtPosition w
   \<and> showAtPosition (setInput_done n h w) = showAtPosition w
   \<and> showAtPosition (hide env w) = showAtPosition w
   \<and> getPosition (hide env w) = None
   \<and> getPosition DebugHoverWidget_new = None"
proof -
  have shown: "getPosition (state_of (doShow (Some q) (Some e) fr v))
       = Some \<lparr> position = Some q, preference = [ABOVE, BELOW] \<rparr>" for q v fr
    using doShow_visible [of "Some q" "Some e" fr v]
      doShow_position [of "Some q" "Some e" fr v]
    by (simp add: getPosition_def)
  have "getPosition (state_of (showAt env rng hoveringOver (Completed (Some e)) w))
          = Some \<lparr> position = Some (getStartPosition rng), preference = [ABOVE, BELOW] \<rparr>"
    if "hoveringOver \<noteq> []" "getFocusedStackFrame env = Some f" "getModel env = Some m"
      "source_uri f = associatedResource m" "available e"
    using that shown by (simp add: showAt_passes showAt_done_available)
  moreover have "getPosition (hide env w) = None"
    using hide_invisible [of env w] by (simp add: getPosition_def)
  ultimately show ?thesis
    using shown [of p force w]
    by (simp add: getPosition_def layoutTree_position setInput_done_position
        hide_showAtPosition DebugHoverWidget_new_def)
qed

theorem getPosition_last_shown_witness:
  "isVisible hover_widget_shown
   \<and> getPosition hover_widget_shown
       = Some \<lparr> position = Some \<lparr> lineNumber = 1, column = 13 \<rparr>, preference = [ABOVE, BELOW] \<rparr>
   \<and> \<not> isVisible DebugHoverWidget_new
   \<and> getPosition DebugHoverWidget_new = None
   \<and> getPosition (hide hover_env0 hover_widget_shown) = None"
  using getPosition_last_shown [of DebugHoverWidget_new "\<lparr> lineNumber = 1, column = 13 \<rparr>"
      hover_expression0 False "''foo''" hover_env0 "\<lparr> source_uri = ''file:///a.js'' \<rparr>"
      "\<lparr> associatedResource = ''file:///a.js'',
         getLineContent = (\<lambda>n. if n = 1 then ''x = a.foo + foo'' else []) \<rparr>"
      hover_range0 0 0]
    getPosition_last_shown [of hover_widget_shown "\<lparr> lineNumber = 1, column = 13 \<rparr>"
      hover_expression0 False "''foo''" hover_env0 "\<lparr> source_uri = ''file:///a.js'' \<rparr>"
      "\<lparr> associatedResource = ''file:///a.js'',
         getLineContent = (\<lambda>n. if n = 1 then ''x = a.foo + foo'' else []) \<rparr>"
      hover_range0 0 0]
  by (simp add: hover_env0_def hover_widget_shown_def hover_range0_def hover_expression0_def
      showAt_def showAt_done_def doShow_def deltaDecorations_def layoutContentWidget_def
      DebugHoverWidget_new_def getStartPosition_def hide_def Let_def)

text \<open>
  C7. When \<open>showAt\<close> passes its guard with an available expression, it calls
  \<open>deltaDecorations\<close> once, with the identifiers held so far and exactly one new decoration
  of class \<open>hoverHighlight\<close>, on the line of the hovered range, from column
  \<open>indexOf\<close> + 1 to that column plus the length of the word, and keeps the identifiers
  the editor returns; the widget is visible afterwards. When the word occurs in the line,
  \<open>indexOf\<close> is its first occurrence. \<open>hide\<close> on a visible widget hands all its decorations
  back to the editor and empties the list; on a widget that is not visible it changes
  nothing, the trace of calls included.
\<close>

theorem showAt_replaces_decorations:
  "(hoveringOver \<noteq> [] \<and> getFocusedStackFrame env = Some f \<and> getModel env = Some m
      \<and> source_uri f = associatedResource m \<and> available e
    \<longrightarrow> (let pos = getStartPosition rng;
             line = getLineContent m (lineNumber pos);
             d = hover_decoration pos line hoveringOver;
             w' = state_of (showAt env rng hoveringOver (Completed (Some e)) w)
         in showAt env rng hoveringOver (Completed (Some e)) w = Returned w'
            \<and> isVisible w'
            \<and> highlightDecorations w'
                = decorationIds env (calls w) (highlightDecorations w) [d]
            \<and> (\<exists>rest. calls w' = calls w @ DeltaDecorations (highlightDecorations w) [d] # rest
                   \<and> (\<forall>c \<in> set rest. \<forall>ids ds. c \<noteq> DeltaDecorations ids ds))
            \<and> className d = ''hoverHighlight''
            \<and> startLineNumber (decoration_range d) = lineNumber pos
            \<and> endLineNumber (decoration_range d) = lineNumber pos
            \<and> startColumn (decoration_range d) = indexOf line hoveringOver + 1
            \<and> endColumn (decoration_range d)
                = startColumn (decoration_range d) + int (length hoveringOver)
            \<and> (0 \<le> indexOf line hoveringOver \<longrightarrow>
                 take (length hoveringOver) (drop (nat (indexOf line hoveringOver)) line)
                   = hoveringOver
                 \<and> (\<forall>j < nat (indexOf line hoveringOver).
                       take (length hoveringOver) (drop j line) \<noteq> hoveringOver))))
   \<and> (isVisible w \<longrightarrow>
        highlightDecorations (hide env w) = []
        \<and> calls (hide env w)
            = calls w @ [DeltaDecorations (highlightDecorations w) [], LayoutContentWidget])
   \<and> (\<not> isVisible w \<longrightarrow> hide env w = w)"
proof (intro conjI impI)
  assume a: "hoveringOver \<noteq> [] \<and> getFocusedStackFrame env = Some f \<and> getModel env = Some m
      \<and> source_uri f = associatedResource m \<and> available e"
  define pos where "pos = getStartPosition rng"
  define line where "line = getLineContent m (lineNumber pos)"
  define d where "d = hover_decoration pos line hoveringOver"
  define w1 where "w1 = w\<lparr> calls := calls w @ [DeltaDecorations (highlightDecorations w) [d]],
      highlightDecorations := decorationIds env (calls w) (highlightDecorations w) [d] \<rparr>"
  from a have run: "showAt env rng hoveringOver (Completed (Some e)) w
      = doShow (Some pos) (Some e) False w1"
    by (simp add: showAt_passes showAt_done_available pos_def line_def d_def w1_def)
  have first: "take (length hoveringOver) (drop (nat (indexOf line hoveringOver)) line)
                   = hoveringOver
                 \<and> (\<forall>j < nat (indexOf line hoveringOver).
                       take (length hoveringOver) (drop j line) \<noteq> hoveringOver)"
    if "0 \<le> indexOf line hoveringOver"
    using that indexOf_found [of line hoveringOver] indexOf_first [of _ line hoveringOver]
    by blast
  have rest: "\<exists>rest. calls (state_of (doShow (Some pos) (Some e) False w1))
        = calls w @ DeltaDecorations (highlightDecorations w) [d] # rest
      \<and> (\<forall>c \<in> set rest. \<forall>ids ds. c \<noteq> DeltaDecorations ids ds)"
    by (simp add: doShow_Some w1_def)
  have "showAt env rng hoveringOver (Completed (Some e)) w
          = Returned (state_of (showAt env rng hoveringOver (Completed (Some e)) w))"
    by (simp add: run doShow_Some)
  moreover have "isVisible (state_of (showAt env rng hoveringOver (Completed (Some e)) w))"
    by (simp add: run doShow_visible)
  moreover have "highlightDecorations (state_of (showAt env rng hoveringOver (Completed (Some e)) w))
      = decorationIds env (calls w) (highlightDecorations w) [d]"
    by (simp add: run doShow_Some w1_def)
  moreover have "className d = ''hoverHighlight''
      \<and> startLineNumber (decoration_range d) = lineNumber pos
      \<and> endLineNumber (decoration_range d) = lineNumber pos
      \<and> startColumn (decoration_range d) = indexOf line hoveringOver + 1
      \<and> endColumn (decoration_range d)
          = startColumn (decoration_range d) + int (length hoveringOver)"
    by (simp add: d_def hover_decoration_def)
  ultimately show "let pos = getStartPosition rng;
             line = getLineContent m (lineNumber pos);
             d = hover_decoration pos line hoveringOver;
             w' = state_of (showAt env rng hoveringOver (Completed (Some e)) w)
         in showAt env rng hoveringOver (Completed (Some e)) w = Returned w'
            \<and> isVisible w'
            \<and> highlightDecorations w'
                = decorationIds env (calls w) (highlightDecorations w) [d]
            \<and> (\<exists>rest. calls w' = calls w @ DeltaDecorations (highlightDecorations w) [d] # rest
                   \<and> (\<forall>c \<in> set rest. \<forall>ids ds. c \<noteq> DeltaDecorations ids ds))
            \<and> className d = ''hoverHighlight''
            \<and> startLineNumber (decoration_range d) = lineNumber pos
            \<and> endLineNumber (decoration_range d) = lineNumber pos
            \<and> startColumn (decoration_range d) = indexOf line hoveringOver + 1
            \<and> endColumn (decoration_range d)
                = startColumn (decoration_range d) + int (length hoveringOver)
            \<and> (0 \<le> indexOf line hoveringOver \<longrightarrow>
                 take (length hoveringOver) (drop (nat (indexOf line hoveringOver)) line)
                   = hoveringOver
                 \<and> (\<forall>j < nat (indexOf line hoveringOver).
                       take (length hoveringOver) (drop j line) \<noteq> hoveringOver))"
    using first rest unfolding Let_def pos_def [symmetric] line_def [symmetric] d_def [symmetric] run
    by blast
next
  assume "isVisible w"
  then show "highlightDecorations (hide env w) = []"
    and "calls (hide env w)
            = calls w @ [DeltaDecorations (highlightDecorations w) [], LayoutContentWidget]"
    by (simp_all add: hide_visible)
next
  assume "\<not> isVisible w"
  then show "hide env w = w" by (rule hide_not_visible)
qed

theorem showAt_replaces_decorations_witness:
  "showAt hover_env0 hover_range0 ''foo'' (Completed (Some hover_expression0))
       DebugHoverWidget_new = Returned hover_widget_shown
   \<and> highlightDecorations hover_widget_shown = [''id'']
   \<and> calls hover_widget_shown =
       [ AddContentWidget,
         DeltaDecorations []
           [\<lparr> decoration_range = \<lparr> startLineNumber = 1, startColumn = 7, endLineNumber = 1,
                                   endColumn = 10 \<rparr>,
              className = ''hoverHighlight'' \<rparr>],
         RenderExpressionValue hover_expression0, LayoutContentWidget ]
   \<and> isVisible hover_widget_shown
   \<and> highlightDecorations (hide hover_env0 hover_widget_shown) = []
   \<and> \<not> isVisible DebugHoverWidget_new
   \<and> hide hover_env0 DebugHoverWidget_new = DebugHoverWidget_new"
  using showAt_replaces_decorations [of "''foo''" hover_env0 "\<lparr> source_uri = ''file:///a.js'' \<rparr>"
      "\<lparr> associatedResource = ''file:///a.js'',
         getLineContent = (\<lambda>n. if n = 1 then ''x = a.foo + foo'' else []) \<rparr>"
      hover_expression0 hover_range0 DebugHoverWidget_new]
    showAt_replaces_decorations [of "''foo''" hover_env0 "\<lparr> source_uri = ''file:///a.js'' \<rparr>"
      "\<lparr> associatedResource = ''file:///a.js'',
         getLineContent = (\<lambda>n. if n = 1 then ''x = a.foo + foo'' else []) \<rparr>"
      hover_expression0 hover_range0 hover_widget_shown]
  by (simp add: hover_env0_def hover_widget_shown_def hover_range0_def hover_expression0_def
      showAt_def showAt_done_def doShow_def deltaDecorations_def layoutContentWidget_def
      DebugHoverWidget_new_def getStartPosition_def hide_def hover_decoration_def Let_def)

section \<open>Properties of the command line installer\<close>

lemma occurs_in_iff: "occurs_in sub s = (\<exists>j. take (length sub) (drop j s) = sub)"
proof
  assume "occurs_in sub s"
  then show "\<exists>j. take (length sub) (drop j s) = sub"
    by (auto simp: occurs_in_def list_ex_iff)
next
  assume "\<exists>j. take (length sub) (drop j s) = sub"
  then obtain j where j: "take (length sub) (drop j s) = sub" ..
  show "occurs_in sub s"
  proof (cases "j \<le> length s")
    case True
    with j show ?thesis
      unfolding occurs_in_def list_ex_iff by (intro bexI [of _ j]) auto
  next
    case False
    with j have "sub = []" by simp
    then show ?thesis by (auto simp: occurs_in_def list_ex_iff)
  qed
qed

lemma indexOf_occurs: "(indexOf s sub > - 1) = occurs_in sub s"
proof
  assume "indexOf s sub > - 1"
  then have "0 \<le> indexOf s sub" by simp
  from indexOf_found [OF this] show "occurs_in sub s"
    unfolding occurs_in_iff by blast
next
  assume "occurs_in sub s"
  then obtain j where j: "take (length sub) (drop j s) = sub"
    unfolding occurs_in_iff ..
  show "indexOf s sub > - 1"
  proof (rule ccontr)
    assume "\<not> indexOf s sub > - 1"
    with indexOf_lower [of s sub] have "indexOf s sub < 0" by simp
    from indexOf_absent [OF this, of j] j show False by simp
  qed
qed

lemma readOrEmpty_eq:
  "readOrEmpty env f t =
     ((case pfs_readFile env t f of
         Inr c \<Rightarrow> Inr c
       | Inl e \<Rightarrow> if error_code e = Some ''ENOENT'' then Inr [] else Inl e),
      t @ [ReadFile f])"
  by (simp add: readOrEmpty_def then_catch_def readFile_def ignore_def TPromise_as_def
      TPromise_wrapError_def split: sum.splits)

lemma join_all_readOrEmpty_trace:
  "snd (join_all (map (readOrEmpty env) fs) t) = t @ map ReadFile fs"
  by (induction fs arbitrary: t) (simp_all add: readOrEmpty_eq split_beta)

lemma checkLegacy_trace: "snd (checkLegacy env t) = t @ map ReadFile (legacy_files env)"
  using join_all_readOrEmpty_trace [of env "legacy_files env" t]
  by (simp add: checkLegacy_def then_do_def TPromise_join_def TPromise_as_def split_beta)

lemma checkLegacy_result:
  assumes "\<forall>i<3. missing_or_read (legacy_read env t i)"
  shows "fst (checkLegacy env t) =
           Inr (map (\<lambda>i. legacy_files env ! i)
                  (filter (\<lambda>i. occurs_in (darwinBundleIdentifier env) (legacy_contents env t i))
                     [0 ..< 3]))"
proof -
  define a where "a = path_join env (os_homedir env) ''.bash_profile''"
  define b where "b = path_join env (os_homedir env) ''.bashrc''"
  define c where "c = path_join env (os_homedir env) ''.zshrc''"
  have files: "legacy_files env = [a, b, c]"
    by (simp add: legacy_files_def a_def b_def c_def)
  have three: "[0 ..< 3] = [0, Suc 0, Suc (Suc 0)]"
    by (simp add: upt_rec eval_nat_numeral)
  from assms have ok: "missing_or_read (legacy_read env t 0)"
    "missing_or_read (legacy_read env t (Suc 0))"
    "missing_or_read (legacy_read env t (Suc (Suc 0)))"
    by simp_all
  then show ?thesis
    unfolding three
    by (auto simp: checkLegacy_def then_do_def TPromise_join_def TPromise_as_def files
        readOrEmpty_eq legacy_read_def legacy_contents_def missing_or_read_def indexOf_occurs
        split: sum.splits)
qed

lemma run_legacy:
  assumes "fst (checkLegacy env t) = Inr files" and "files \<noteq> []"
  shows "run env t =
           (Inr (), t @ map ReadFile (legacy_files env)
                      @ [ShowMessage Warning (Message_exists (hd files))])"
proof -
  from assms(1) checkLegacy_trace [of env t]
  have "checkLegacy env t = (Inr files, t @ map ReadFile (legacy_files env))"
    by (simp add: prod_eq_iff)
  with assms(2) show ?thesis
    by (simp add: run_def then_do_def messageService_show_def TPromise_as_def hd_conv_nth)
qed

lemma createSymlink_eq:
  "createSymlink env t =
     (case pfs_unlink env t (target env) of
        Inr u \<Rightarrow>
          (pfs_symlink env (t @ [Unlink (target env)]) (source env) (target env),
           t @ [Unlink (target env), Symlink (source env) (target env)])
      | Inl e \<Rightarrow>
          if error_code e = Some ''ENOENT'' then
            (pfs_symlink env (t @ [Unlink (target env)]) (source env) (target env),
             t @ [Unlink (target env), Symlink (source env) (target env)])
          else (Inl e, t @ [Unlink (target env)]))"
  by (simp add: createSymlink_def then_do_def then_catch_def unlink_def symlink_def ignore_def
      TPromise_as_def TPromise_wrapError_def split: sum.splits)

lemma createBinFolder_eq:
  "createBinFolder env t =
     ((case cp_exec env t createBinFolder_command of
         Inr u \<Rightarrow> Inr ()
       | Inl e \<Rightarrow> Inl cantCreateBinFolder),
      t @ [Exec createBinFolder_command])"
  by (simp add: createBinFolder_def then_catch_def exec_def TPromise_wrapError_def
      split: sum.splits)

lemma run_install:
  assumes "checkLegacy env t = (Inr [], t1)" and "isInstalled env t1 = (Inr False, t2)"
    and "isAvailable env"
  shows "run env t =
     (case createSymlink env t2 of
        (Inr u, t3) \<Rightarrow>
          (Inr (), t3 @ [ShowMessage Info (Message_success (applicationName env))])
      | (Inl err, t3) \<Rightarrow>
          if error_code err = Some ''EACCES'' \<or> error_code err = Some ''ENOENT'' then
            (case createBinFolder env t3 of
               (Inl e, t4) \<Rightarrow> (Inl e, t4)
             | (Inr u, t4) \<Rightarrow>
                 (case createSymlink env t4 of
                    (Inr u, t5) \<Rightarrow>
                      (Inr (), t5 @ [ShowMessage Info (Message_success (applicationName env))])
                  | (Inl e2, t5) \<Rightarrow> (Inl e2, t5)))
          else (Inl err, t3))"
  using assms
  by (simp add: run_def then_do_def then_catch_def messageService_show_def TPromise_as_def
      TPromise_wrapError_def split: prod.splits sum.splits)

text \<open>
  C3. \<open>checkLegacy\<close> reads the three files \<open>.bash_profile\<close>, \<open>.bashrc\<close> and \<open>.zshrc\<close> of the
  home directory, in this order, and nothing else. When each read either succeeds or fails
  with \<open>ENOENT\<close> (then the contents count as empty), it returns, in the same order, the
  paths of exactly those files in whose contents \<open>darwinBundleIdentifier\<close> occurs. Whenever
  that list is not empty, \<open>run\<close> shows the warning about its first file and returns: the only
  calls it has made are the three reads and the message, so there is no \<open>unlink\<close>, no
  \<open>symlink\<close> and no command.
\<close>

theorem checkLegacy_reads_three_files:
  "legacy_files env =
     [ path_join env (os_homedir env) ''.bash_profile'',
       path_join env (os_homedir env) ''.bashrc'',
       path_join env (os_homedir env) ''.zshrc'' ]
   \<and> snd (checkLegacy env t) = t @ map ReadFile (legacy_files env)
   \<and> ((\<forall>i<3. missing_or_read (legacy_read env t i)) \<longrightarrow>
        fst (checkLegacy env t) =
          Inr (map (\<lambda>i. legacy_files env ! i)
                 (filter (\<lambda>i. occurs_in (darwinBundleIdentifier env) (legacy_contents env t i))
                    [0 ..< 3])))
   \<and> (fst (checkLegacy env t) = Inr files \<and> files \<noteq> [] \<longrightarrow>
        run env t =
          (Inr (), t @ map ReadFile (legacy_files env)
                     @ [ShowMessage Warning (Message_exists (hd files))])
        \<and> (\<forall>c \<in> set (snd (run env t)). is_link_change c \<longrightarrow> c \<in> set t))"
proof (intro conjI impI)
  show "legacy_files env =
     [ path_join env (os_homedir env) ''.bash_profile'',
       path_join env (os_homedir env) ''.bashrc'',
       path_join env (os_homedir env) ''.zshrc'' ]"
    by (simp add: legacy_files_def)
next
  show "snd (checkLegacy env t) = t @ map ReadFile (legacy_files env)"
    by (rule checkLegacy_trace)
next
  assume "\<forall>i<3. missing_or_read (legacy_read env t i)"
  then show "fst (checkLegacy env t) =
          Inr (map (\<lambda>i. legacy_files env ! i)
                 (filter (\<lambda>i. occurs_in (darwinBundleIdentifier env) (legacy_contents env t i))
                    [0 ..< 3]))"
    by (rule checkLegacy_result)
next
  assume a: "fst (checkLegacy env t) = Inr files \<and> files \<noteq> []"
  then have r: "run env t =
          (Inr (), t @ map ReadFile (legacy_files env)
                     @ [ShowMessage Warning (Message_exists (hd files))])"
    by (simp add: run_legacy)
  then show "run env t =
          (Inr (), t @ map ReadFile (legacy_files env)
                     @ [ShowMessage Warning (Message_exists (hd files))])" .
  show "\<forall>c \<in> set (snd (run env t)). is_link_change c \<longrightarrow> c \<in> set t"
    unfolding r by (auto simp: is_link_change_def)
qed

theorem checkLegacy_reads_three_files_witness:
  "missing_or_read (legacy_read node_env1 [] 0)
   \<and> missing_or_read (legacy_read node_env1 [] 1)
   \<and> missing_or_read (legacy_read node_env1 [] 2)
   \<and> checkLegacy node_env1 [] =
       (Inr [''/h/.bashrc''],
        [ReadFile ''/h/.bash_profile'', ReadFile ''/h/.bashrc'', ReadFile ''/h/.zshrc''])
   \<and> run node_env1 [] =
       (Inr (),
        [ReadFile ''/h/.bash_profile'', ReadFile ''/h/.bashrc'', ReadFile ''/h/.zshrc'',
         ShowMessage Warning (Message_exists ''/h/.bashrc'')])"
proof -
  have files: "legacy_files node_env1 = [''/h/.bash_profile'', ''/h/.bashrc'', ''/h/.zshrc'']"
    by (simp add: legacy_files_def node_env1_def node_env0_def)
  have reads: "missing_or_read (legacy_read node_env1 [] i)" for i
    by (simp add: missing_or_read_def legacy_read_def node_env1_def node_env0_def)
  have three: "[0 ..< 3] = [0, Suc 0, Suc (Suc 0)]"
    by (simp add: upt_rec eval_nat_numeral)
  have c0: "legacy_contents node_env1 [] 0 = []"
    and c1: "legacy_contents node_env1 [] (Suc 0) = ''open -b com.ms''"
    and c2: "legacy_contents node_env1 [] (Suc (Suc 0)) = []"
    by (simp_all add: legacy_contents_def legacy_read_def files)
      (simp_all add: node_env1_def node_env0_def)
  have id: "darwinBundleIdentifier node_env1 = ''com.ms''"
    by (simp add: node_env1_def node_env0_def)
  have o0: "\<not> occurs_in ''com.ms'' []"
    by (simp add: occurs_in_def)
  have o1: "occurs_in ''com.ms'' ''open -b com.ms''"
    unfolding indexOf_occurs [symmetric] by simp
  have res: "fst (checkLegacy node_env1 []) = Inr [''/h/.bashrc'']"
    using checkLegacy_reads_three_files [of node_env1 "[]" "[''/h/.bashrc'']"] reads
    by (simp add: three c0 c1 c2 id o0 o1 files)
  then have "checkLegacy node_env1 [] =
       (Inr [''/h/.bashrc''],
        [ReadFile ''/h/.bash_profile'', ReadFile ''/h/.bashrc'', ReadFile ''/h/.zshrc''])"
    using checkLegacy_reads_three_files [of node_env1 "[]" "[''/h/.bashrc'']"]
    by (simp add: prod_eq_iff files)
  moreover have "run node_env1 [] =
       (Inr (),
        [ReadFile ''/h/.bash_profile'', ReadFile ''/h/.bashrc'', ReadFile ''/h/.zshrc'',
         ShowMessage Warning (Message_exists ''/h/.bashrc'')])"
    using checkLegacy_reads_three_files [of node_env1 "[]" "[''/h/.bashrc'']"] res
    by (simp add: files)
  ultimately show ?thesis using reads by simp
qed

text \<open>
  What \<open>run\<close> does when \<open>checkLegacy\<close> finds no legacy file, the bundled \<open>source\<close> exists
  and \<open>isInstalled\<close> answers false: it runs \<open>createSymlink\<close>, which unlinks
  \<open>/usr/local/bin/\<close>\<open>applicationName\<close>, goes on when that succeeds or fails with \<open>ENOENT\<close>,
  and then creates there a symlink to \<open>source\<close>. When \<open>createSymlink\<close> succeeds the success
  message is shown. When it fails with \<open>EACCES\<close> or \<open>ENOENT\<close>, \<open>createBinFolder\<close> runs the
  administrator's command that creates \<open>/usr/local/bin\<close>, and \<open>createSymlink\<close> runs once
  more; its rejection, like a failure of the command and like any other error of the first
  attempt, is the rejection of \<open>run\<close>. The target is linked at most twice and the command
  runs at most once.
\<close>

lemma run_installs_symlink:
  "target env = ''/usr/local/bin/'' @ applicationName env
   \<and> createSymlink env t' =
       (case pfs_unlink env t' (target env) of
          Inr u \<Rightarrow>
            (pfs_symlink env (t' @ [Unlink (target env)]) (source env) (target env),
             t' @ [Unlink (target env), Symlink (source env) (target env)])
        | Inl e \<Rightarrow>
            if error_code e = Some ''ENOENT'' then
              (pfs_symlink env (t' @ [Unlink (target env)]) (source env) (target env),
               t' @ [Unlink (target env), Symlink (source env) (target env)])
            else (Inl e, t' @ [Unlink (target env)]))
   \<and> createBinFolder env t' =
       ((case cp_exec env t' createBinFolder_command of
           Inr u \<Rightarrow> Inr ()
         | Inl e \<Rightarrow> Inl cantCreateBinFolder),
        t' @ [Exec createBinFolder_command])
   \<and> (checkLegacy env t = (Inr [], t1) \<and> isInstalled env t1 = (Inr False, t2)
        \<and> isAvailable env \<longrightarrow>
        run env t =
          (case createSymlink env t2 of
             (Inr u, t3) \<Rightarrow>
               (Inr (), t3 @ [ShowMessage Info (Message_success (applicationName env))])
           | (Inl err, t3) \<Rightarrow>
               if error_code err = Some ''EACCES'' \<or> error_code err = Some ''ENOENT'' then
                 (case createBinFolder env t3 of
                    (Inl e, t4) \<Rightarrow> (Inl e, t4)
                  | (Inr u, t4) \<Rightarrow>
                      (case createSymlink env t4 of
                         (Inr u, t5) \<Rightarrow>
                           (Inr (),
                            t5 @ [ShowMessage Info (Message_success (applicationName env))])
                       | (Inl e2, t5) \<Rightarrow> (Inl e2, t5)))
               else (Inl err, t3))
        \<and> count_list (snd (run env t)) (Symlink (source env) (target env))
            \<le> count_list t2 (Symlink (source env) (target env)) + 2
        \<and> count_list (snd (run env t)) (Exec createBinFolder_command)
            \<le> count_list t2 (Exec createBinFolder_command) + 1)"
proof (intro conjI impI)
  show "target env = ''/usr/local/bin/'' @ applicationName env"
    by (simp add: target_def)
next
  show "createSymlink env t' =
       (case pfs_unlink env t' (target env) of
          Inr u \<Rightarrow>
            (pfs_symlink env (t' @ [Unlink (target env)]) (source env) (target env),
             t' @ [Unlink (target env), Symlink (source env) (target env)])
        | Inl e \<Rightarrow>
            if error_code e = Some ''ENOENT'' then
              (pfs_symlink env (t' @ [Unlink (target env)]) (source env) (target env),
               t' @ [Unlink (target env), Symlink (source env) (target env)])
            else (Inl e, t' @ [Unlink (target env)]))"
    by (rule createSymlink_eq)
next
  show "createBinFolder env t' =
       ((case cp_exec env t' createBinFolder_command of
           Inr u \<Rightarrow> Inr ()
         | Inl e \<Rightarrow> Inl cantCreateBinFolder),
        t' @ [Exec createBinFolder_command])"
    by (rule createBinFolder_eq)
next
  assume a: "checkLegacy env t = (Inr [], t1) \<and> isInstalled env t1 = (Inr False, t2)
        \<and> isAvailable env"
  then have r: "run env t =
          (case createSymlink env t2 of
             (Inr u, t3) \<Rightarrow>
               (Inr (), t3 @ [ShowMessage Info (Message_success (applicationName env))])
           | (Inl err, t3) \<Rightarrow>
               if error_code err = Some ''EACCES'' \<or> error_code err = Some ''ENOENT'' then
                 (case createBinFolder env t3 of
                    (Inl e, t4) \<Rightarrow> (Inl e, t4)
                  | (Inr u, t4) \<Rightarrow>
                      (case createSymlink env t4 of
                         (Inr u, t5) \<Rightarrow>
                           (Inr (),
                            t5 @ [ShowMessage Info (Message_success (applicationName env))])
                       | (Inl e2, t5) \<Rightarrow> (Inl e2, t5)))
               else (Inl err, t3))"
    by (simp add: run_install)
  then show "run env t =
          (case createSymlink env t2 of
             (Inr u, t3) \<Rightarrow>
               (Inr (), t3 @ [ShowMessage Info (Message_success (applicationName env))])
           | (Inl err, t3) \<Rightarrow>
               if error_code err = Some ''EACCES'' \<or> error_code err = Some ''ENOENT'' then
                 (case createBinFolder env t3 of
                    (Inl e, t4) \<Rightarrow> (Inl e, t4)
                  | (Inr u, t4) \<Rightarrow>
                      (case createSymlink env t4 of
                         (Inr u, t5) \<Rightarrow>
                           (Inr (),
                            t5 @ [ShowMessage Info (Message_success (applicationName env))])
                       | (Inl e2, t5) \<Rightarrow> (Inl e2, t5)))
               else (Inl err, t3))" .
  have link: "count_list (snd (createSymlink env u)) c \<le> count_list u c + 1"
    and cmd: "count_list (snd (createSymlink env u)) (Exec k) = count_list u (Exec k)"
    for u c k
    by (auto simp: createSymlink_eq split: sum.splits)
  have bin: "count_list (snd (createBinFolder env u)) (Symlink p q) = count_list u (Symlink p q)"
    and bin_cmd: "count_list (snd (createBinFolder env u)) c \<le> count_list u c + 1"
    for u p q c
    by (simp_all add: createBinFolder_eq)
  show "count_list (snd (run env t)) (Symlink (source env) (target env))
            \<le> count_list t2 (Symlink (source env) (target env)) + 2"
    unfolding r
    using link [of t2 "Symlink (source env) (target env)"]
      link [of "snd (createBinFolder env (snd (createSymlink env t2)))"
        "Symlink (source env) (target env)"]
      bin [of "snd (createSymlink env t2)" "source env" "target env"]
    by (auto split: prod.splits sum.splits)
  show "count_list (snd (run env t)) (Exec createBinFolder_command)
            \<le> count_list t2 (Exec createBinFolder_command) + 1"
    unfolding r
    using cmd [of t2 createBinFolder_command]
      cmd [of "snd (createBinFolder env (snd (createSymlink env t2)))" createBinFolder_command]
      bin_cmd [of "snd (createSymlink env t2)" "Exec createBinFolder_command"]
    by (auto split: prod.splits sum.splits)
qed

lemma run_installs_symlink_example:
  "checkLegacy node_env0 [] =
     (Inr [], [ReadFile ''/h/.bash_profile'', ReadFile ''/h/.bashrc'', ReadFile ''/h/.zshrc''])
   \<and> isInstalled node_env0
       [ReadFile ''/h/.bash_profile'', ReadFile ''/h/.bashrc'', ReadFile ''/h/.zshrc'']
     = (Inr False,
        [ReadFile ''/h/.bash_profile'', ReadFile ''/h/.bashrc'', ReadFile ''/h/.zshrc'',
         Lstat ''/usr/local/bin/code''])
   \<and> isAvailable node_env0
   \<and> run node_env0 [] =
       (Inr (),
        [ReadFile ''/h/.bash_profile'', ReadFile ''/h/.bashrc'', ReadFile ''/h/.zshrc'',
         Lstat ''/usr/local/bin/code'',
         Unlink ''/usr/local/bin/code'', Symlink ''/app/bin/code'' ''/usr/local/bin/code'',
         Exec createBinFolder_command,
         Unlink ''/usr/local/bin/code'', Symlink ''/app/bin/code'' ''/usr/local/bin/code'',
         ShowMessage Info (Message_success ''code'')])"
proof -
  have files: "legacy_files node_env0 = [''/h/.bash_profile'', ''/h/.bashrc'', ''/h/.zshrc'']"
    by (simp add: legacy_files_def node_env0_def)
  have tg: "target node_env0 = ''/usr/local/bin/code''"
    by (simp add: target_def node_env0_def)
  have legacy: "checkLegacy node_env0 [] =
     (Inr [], [ReadFile ''/h/.bash_profile'', ReadFile ''/h/.bashrc'', ReadFile ''/h/.zshrc''])"
    by (simp add: checkLegacy_def then_do_def TPromise_join_def TPromise_as_def files
        readOrEmpty_eq)
      (simp add: node_env0_def)
  have inst: "isInstalled node_env0
       [ReadFile ''/h/.bash_profile'', ReadFile ''/h/.bashrc'', ReadFile ''/h/.zshrc'']
     = (Inr False,
        [ReadFile ''/h/.bash_profile'', ReadFile ''/h/.bashrc'', ReadFile ''/h/.zshrc'',
         Lstat ''/usr/local/bin/code''])"
    by (simp add: isInstalled_def then_do_def then_catch_def lstat_def tg)
      (simp add: node_env0_def ignore_def TPromise_as_def)
  have av: "isAvailable node_env0" by (simp add: node_env0_def)
  have unl: "pfs_unlink node_env0 u p = Inl (Errno ''ENOENT'')" for u p
    by (simp add: node_env0_def)
  have sym: "pfs_symlink node_env0 u p q =
      (if Exec createBinFolder_command \<in> set u then Inr () else Inl (Errno ''EACCES''))"
    for u p q
    by (simp add: node_env0_def)
  have src: "source node_env0 = ''/app/bin/code''" by (simp add: node_env0_def)
  have ex: "cp_exec node_env0 u k = Inr ()" for u k by (simp add: node_env0_def)
  have c1: "createSymlink node_env0
       [ReadFile ''/h/.bash_profile'', ReadFile ''/h/.bashrc'', ReadFile ''/h/.zshrc'',
         Lstat ''/usr/local/bin/code'']
     = (Inl (Errno ''EACCES''),
        [ReadFile ''/h/.bash_profile'', ReadFile ''/h/.bashrc'', ReadFile ''/h/.zshrc'',
         Lstat ''/usr/local/bin/code'',
         Unlink ''/usr/local/bin/code'', Symlink ''/app/bin/code'' ''/usr/local/bin/code''])"
    by (simp add: createSymlink_eq tg unl sym src)
  have b: "createBinFolder node_env0
       [ReadFile ''/h/.bash_profile'', ReadFile ''/h/.bashrc'', ReadFile ''/h/.zshrc'',
         Lstat ''/usr/local/bin/code'',
         Unlink ''/usr/local/bin/code'', Symlink ''/app/bin/code'' ''/usr/local/bin/code'']
     = (Inr (),
        [ReadFile ''/h/.bash_profile'', ReadFile ''/h/.bashrc'', ReadFile ''/h/.zshrc'',
         Lstat ''/usr/local/bin/code'',
         Unlink ''/usr/local/bin/code'', Symlink ''/app/bin/code'' ''/usr/local/bin/code'',
         Exec createBinFolder_command])"
    by (simp add: createBinFolder_eq ex)
  have c2: "createSymlink node_env0
       [ReadFile ''/h/.bash_profile'', ReadFile ''/h/.bashrc'', ReadFile ''/h/.zshrc'',
         Lstat ''/usr/local/bin/code'',
         Unlink ''/usr/local/bin/code'', Symlink ''/app/bin/code'' ''/usr/local/bin/code'',
         Exec createBinFolder_command]
     = (Inr (),
        [ReadFile ''/h/.bash_profile'', ReadFile ''/h/.bashrc'', ReadFile ''/h/.zshrc'',
         Lstat ''/usr/local/bin/code'',
         Unlink ''/usr/local/bin/code'', Symlink ''/app/bin/code'' ''/usr/local/bin/code'',
         Exec createBinFolder_command,
         Unlink ''/usr/local/bin/code'', Symlink ''/app/bin/code'' ''/usr/local/bin/code''])"
    by (simp add: createSymlink_eq tg unl sym src)
  have name: "applicationName node_env0 = ''code''" by (simp add: node_env0_def)
  have "run node_env0 [] =
       (Inr (),
        [ReadFile ''/h/.bash_profile'', ReadFile ''/h/.bashrc'', ReadFile ''/h/.zshrc'',
         Lstat ''/usr/local/bin/code'',
         Unlink ''/usr/local/bin/code'', Symlink ''/app/bin/code'' ''/usr/local/bin/code'',
         Exec createBinFolder_command,
         Unlink ''/usr/local/bin/code'', Symlink ''/app/bin/code'' ''/usr/local/bin/code'',
         ShowMessage Info (Message_success ''code'')])"
    using run_installs_symlink [of node_env0 "[]" "[]"
        "[ReadFile ''/h/.bash_profile'', ReadFile ''/h/.bashrc'', ReadFile ''/h/.zshrc'']"
        "[ReadFile ''/h/.bash_profile'', ReadFile ''/h/.bashrc'', ReadFile ''/h/.zshrc'',
          Lstat ''/usr/local/bin/code'']"]
      legacy inst av
    by (simp add: c1 b c2 name)
  with legacy inst av show ?thesis by simp
qed


text \<open>The command of \<open>createBinFolder\<close>, character by character.\<close>

lemma createBinFolder_command_text:
  "createBinFolder_command =
     ''osascript -e '' @ [CHR 0x22] @ ''do shell script '' @ [CHR 0x5C, CHR 0x22]
       @ ''mkdir -p /usr/local/bin && chown '' @ [CHR 0x5C, CHR 0x22]
       @ '' & (do shell script ('' @ [CHR 0x5C, CHR 0x22] @ ''whoami'' @ [CHR 0x5C, CHR 0x22]
       @ '')) & '' @ [CHR 0x5C, CHR 0x22] @ '' /usr/local/bin'' @ [CHR 0x5C, CHR 0x22]
       @ '' with administrator privileges'' @ [CHR 0x22]"
  by (simp add: createBinFolder_command_def dquote_def bsl_def)

text \<open>
  C2. On the code the claim fails when \<open>/usr/local/bin/\<close>\<open>applicationName\<close> exists and is no
  symbolic link. On the third machine no legacy alias is found, the bundled \<open>source\<close>
  exists and the shortcut is not installed: the target is a regular file. \<open>isInstalled\<close>
  drops the answer of \<open>stat.isSymbolicLink()\<close> and calls \<open>readlink\<close>, whose \<open>EINVAL\<close> is not
  \<open>ENOENT\<close>: \<open>isInstalled\<close> is rejected, and so is \<open>run\<close>, before any \<open>unlink\<close> or \<open>symlink\<close>.
  On the first machine, where the target does not exist, \<open>run\<close> installs as the claim says:
  it unlinks, fails to link with \<open>EACCES\<close>, runs the command that creates
  \<open>/usr/local/bin\<close> with administrator privileges, unlinks and links once more, and shows
  the success message.
\<close>

theorem run_rejects_regular_file:
  "checkLegacy node_env2 [] =
     (Inr [], [ReadFile ''/h/.bash_profile'', ReadFile ''/h/.bashrc'', ReadFile ''/h/.zshrc''])
   \<and> isAvailable node_env2
   \<and> target node_env2 = ''/usr/local/bin/code''
   \<and> pfs_lstat node_env2
        [ReadFile ''/h/.bash_profile'', ReadFile ''/h/.bashrc'', ReadFile ''/h/.zshrc'']
        ''/usr/local/bin/code'' = Inr False
   \<and> isInstalled node_env2
        [ReadFile ''/h/.bash_profile'', ReadFile ''/h/.bashrc'', ReadFile ''/h/.zshrc'']
      = (Inl (Errno ''EINVAL''),
         [ReadFile ''/h/.bash_profile'', ReadFile ''/h/.bashrc'', ReadFile ''/h/.zshrc'',
          Lstat ''/usr/local/bin/code'', Readlink ''/usr/local/bin/code''])
   \<and> run node_env2 [] =
       (Inl (Errno ''EINVAL''),
        [ReadFile ''/h/.bash_profile'', ReadFile ''/h/.bashrc'', ReadFile ''/h/.zshrc'',
         Lstat ''/usr/local/bin/code'', Readlink ''/usr/local/bin/code''])
   \<and> run node_env0 [] =
       (Inr (),
        [ReadFile ''/h/.bash_profile'', ReadFile ''/h/.bashrc'', ReadFile ''/h/.zshrc'',
         Lstat ''/usr/local/bin/code'',
         Unlink ''/usr/local/bin/code'', Symlink ''/app/bin/code'' ''/usr/local/bin/code'',
         Exec (''osascript -e '' @ [CHR 0x22] @ ''do shell script '' @ [CHR 0x5C, CHR 0x22]
           @ ''mkdir -p /usr/local/bin && chown '' @ [CHR 0x5C, CHR 0x22]
           @ '' & (do shell script ('' @ [CHR 0x5C, CHR 0x22] @ ''whoami''
           @ [CHR 0x5C, CHR 0x22] @ '')) & '' @ [CHR 0x5C, CHR 0x22] @ '' /usr/local/bin''
           @ [CHR 0x5C, CHR 0x22] @ '' with administrator privileges'' @ [CHR 0x22]),
         Unlink ''/usr/local/bin/code'', Symlink ''/app/bin/code'' ''/usr/local/bin/code'',
         ShowMessage Info (Message_success ''code'')])"
proof -
  have files: "legacy_files node_env2 = [''/h/.bash_profile'', ''/h/.bashrc'', ''/h/.zshrc'']"
    by (simp add: legacy_files_def node_env2_def node_env0_def)
  have tg: "target node_env2 = ''/usr/local/bin/code''"
    by (simp add: target_def node_env2_def node_env0_def)
  have legacy: "checkLegacy node_env2 [] =
     (Inr [], [ReadFile ''/h/.bash_profile'', ReadFile ''/h/.bashrc'', ReadFile ''/h/.zshrc''])"
    by (simp add: checkLegacy_def then_do_def TPromise_join_def TPromise_as_def files
        readOrEmpty_eq)
      (simp add: node_env2_def node_env0_def)
  have av: "isAvailable node_env2" by (simp add: node_env2_def node_env0_def)
  have ls: "pfs_lstat node_env2 u p = Inr False" for u p by (simp add: node_env2_def)
  have rl: "pfs_readlink node_env2 u p = Inl (Errno ''EINVAL'')" for u p
    by (simp add: node_env2_def)
  have inst: "isInstalled node_env2
        [ReadFile ''/h/.bash_profile'', ReadFile ''/h/.bashrc'', ReadFile ''/h/.zshrc'']
      = (Inl (Errno ''EINVAL''),
         [ReadFile ''/h/.bash_profile'', ReadFile ''/h/.bashrc'', ReadFile ''/h/.zshrc'',
          Lstat ''/usr/local/bin/code'', Readlink ''/usr/local/bin/code''])"
    by (simp add: isInstalled_def then_do_def then_catch_def lstat_def readlink_def tg ls rl
        ignore_def TPromise_as_def TPromise_wrapError_def)
  have r2: "run node_env2 [] =
       (Inl (Errno ''EINVAL''),
        [ReadFile ''/h/.bash_profile'', ReadFile ''/h/.bashrc'', ReadFile ''/h/.zshrc'',
         Lstat ''/usr/local/bin/code'', Readlink ''/usr/local/bin/code''])"
    by (simp add: run_def then_do_def legacy inst)
  have r0: "run node_env0 [] =
       (Inr (),
        [ReadFile ''/h/.bash_profile'', ReadFile ''/h/.bashrc'', ReadFile ''/h/.zshrc'',
         Lstat ''/usr/local/bin/code'',
         Unlink ''/usr/local/bin/code'', Symlink ''/app/bin/code'' ''/usr/local/bin/code'',
         Exec createBinFolder_command,
         Unlink ''/usr/local/bin/code'', Symlink ''/app/bin/code'' ''/usr/local/bin/code'',
         ShowMessage Info (Message_success ''code'')])"
    using run_installs_symlink_example by blast
  show ?thesis
    unfolding r0 createBinFolder_command_text [symmetric]
    using legacy av tg inst r2 by (simp add: ls)
qed


theorem run_rejects_regular_file_witness:
  "fst (run node_env2 []) = Inl (Errno ''EINVAL'')
   \<and> count_list (snd (run node_env2 [])) (Unlink ''/usr/local/bin/code'') = 0
   \<and> count_list (snd (run node_env2 [])) (Symlink ''/app/bin/code'' ''/usr/local/bin/code'') = 0
   \<and> fst (run node_env0 []) = Inr ()
   \<and> count_list (snd (run node_env0 [])) (Symlink ''/app/bin/code'' ''/usr/local/bin/code'') = 2"
  using run_rejects_regular_file by simp


section \<open>Properties of the merge of options\<close>


lemma merge_value_self: "merge_value v (Some v) = v"
proof (induction v)
  case (JObject m)
  have "fmadd m (fmmap_keys (\<lambda>key f. f (fmlookup m key)) (fmmap merge_value m)) = m"
  proof (rule fmap_ext)
    fix k
    show "fmlookup (fmadd m (fmmap_keys (\<lambda>key f. f (fmlookup m key)) (fmmap merge_value m))) k
          = fmlookup m k"
    proof (cases "fmlookup m k")
      case None
      then show ?thesis by (simp add: fmlookup_dom_iff)
    next
      case (Some v)
      then have "v \<in> fmran' m" by (auto simp: fmran'I)
      then have "merge_value v (Some v) = v" by (rule JObject.IH)
      with Some show ?thesis by (simp add: fmlookup_dom_iff)
    qed
  qed
  then show ?case by simp
qed simp_all

lemma merge_value_object:
  "merge_value (JObject sm) (Some (JObject dm)) = JObject (mixin_keys dm sm)"
proof -
  have "fmmap_keys (\<lambda>key f. f (fmlookup dm key)) (fmmap merge_value sm)
        = fmmap_keys (\<lambda>key v. merge_value v (fmlookup dm key)) sm"
    by (rule fmap_ext) (simp add: option.map_comp comp_def)
  then show ?thesis by (simp add: mixin_keys_def)
qed

lemma lookup_mixin_keys:
  "fmlookup (mixin_keys dm sm) k =
     (case fmlookup sm k of
        None \<Rightarrow> fmlookup dm k
      | Some v \<Rightarrow> Some (merge_value v (fmlookup dm k)))"
  by (cases "fmlookup sm k") (simp_all add: mixin_keys_def fmlookup_dom_iff)



lemma mixin_keys_self: "mixin_keys m m = m"
  using merge_value_self [of "JObject m"] by (simp only: merge_value_object json.inject)

lemma mixin_keys_empty: "mixin_keys fmempty sm = sm"
proof (rule fmap_ext)
  fix k
  have "merge_value v None = v" for v by (cases v) simp_all
  then show "fmlookup (mixin_keys fmempty sm) k = fmlookup sm k"
    by (cases "fmlookup sm k") (simp_all add: lookup_mixin_keys)
qed











lemma config_read_assign:
  assumes "key = ''__proto__'' \<and> config_own c key = None \<longrightarrow> (\<exists>n. v = Json (JObject n))"
  shows "config_read (config_assign c key v) key = v"
  using assms by (auto simp: config_read_def config_assign_def)



section \<open>Properties of plain objects\<close>

lemma hasOwnProperty_new [simp]: "hasOwnProperty new_object key = No_own_property"
  by (simp add: hasOwnProperty_def new_object_def)

lemma js_get_assign: "js_get (js_assign obj key v) key = Some v"
  by (simp add: js_get_def js_assign_def)

lemma js_get_own: "hasOwnProperty obj key = Own_property v \<Longrightarrow> js_get obj key = Some v"
  by (auto simp: hasOwnProperty_def js_get_def split: if_splits option.splits)

lemma own_assign_proto:
  "own obj ''__proto__'' = None \<Longrightarrow> own (js_assign obj ''__proto__'' v) = own obj"
  by (simp add: js_assign_def)

lemma own_delete_proto:
  "own obj ''__proto__'' = None \<Longrightarrow> own (js_delete obj ''__proto__'') = own obj"
  by (simp add: js_delete_def fun_eq_iff)

lemma hasOwnProperty_proto:
  "own obj ''__proto__'' = None \<Longrightarrow> own obj ''hasOwnProperty'' = None
   \<Longrightarrow> hasOwnProperty (js_assign obj ''__proto__'' v) ''__proto__'' = No_own_property"
  by (simp add: hasOwnProperty_def js_assign_def)

lemma hasOwnProperty_assign:
  "key \<noteq> ''__proto__'' \<Longrightarrow> key \<noteq> ''hasOwnProperty'' \<Longrightarrow> own obj ''hasOwnProperty'' = None
   \<Longrightarrow> hasOwnProperty (js_assign obj key v) key = Own_property v"
  by (simp add: hasOwnProperty_def js_assign_def)

lemma hasOwnProperty_shadowed:
  "hasOwnProperty (js_assign obj ''hasOwnProperty'' v) key = Not_a_function"
  by (simp add: hasOwnProperty_def js_assign_def)


section \<open>Properties of the mode service\<close>

lemma config_waiting:
  "config (foldl (\<lambda>s2 (modeId, support, callback).
       snd (registerSupport_on modeId support callback m s2)) s ws) = config s"
  by (induction ws arbitrary: s) (simp_all add: split_beta registerSupport_on_def)

lemma promises_waiting:
  "promises (foldl (\<lambda>s2 (modeId, support, callback).
       snd (registerSupport_on modeId support callback m s2)) s ws) = promises s"
  by (induction ws arbitrary: s) (simp_all add: split_beta registerSupport_on_def)

lemma fields_waiting:
  "instantiatedModes (foldl (\<lambda>s2 (modeId, support, callback).
       snd (registerSupport_on modeId support callback m s2)) s ws) = instantiatedModes s"
  "activationPromises (foldl (\<lambda>s2 (modeId, support, callback).
       snd (registerSupport_on modeId support callback m s2)) s ws) = activationPromises s"
  "frankensteinModes (foldl (\<lambda>s2 (modeId, support, callback).
       snd (registerSupport_on modeId support callback m s2)) s ws) = frankensteinModes s"
  "created (foldl (\<lambda>s2 (modeId, support, callback).
       snd (registerSupport_on modeId support callback m s2)) s ws) = created s"
  "pendingCreations (foldl (\<lambda>s2 (modeId, support, callback).
       snd (registerSupport_on modeId support callback m s2)) s ws) = pendingCreations s"
  "next_ref (foldl (\<lambda>s2 (modeId, support, callback).
       snd (registerSupport_on modeId support callback m s2)) s ws) = next_ref s"
  "configured (foldl (\<lambda>s2 (modeId, support, callback).
       snd (registerSupport_on modeId support callback m s2)) s ws) = configured s"
  "pluginsReady (foldl (\<lambda>s2 (modeId, support, callback).
       snd (registerSupport_on modeId support callback m s2)) s ws) = pluginsReady s"
  by (induction ws arbitrary: s; simp add: split_beta registerSupport_on_def)+

lemma complete_promise_fields:
  "instantiatedModes (complete_promise p m s) = instantiatedModes s"
  "activationPromises (complete_promise p m s) = activationPromises s"
  "frankensteinModes (complete_promise p m s) = frankensteinModes s"
  "created (complete_promise p m s) = created s"
  "pendingCreations (complete_promise p m s) = pendingCreations s"
  "next_ref (complete_promise p m s) = next_ref s"
  "configured (complete_promise p m s) = configured s"
  "pluginsReady (complete_promise p m s) = pluginsReady s"
  by (simp_all add: complete_promise_def Let_def fields_waiting)

lemma complete_promise_config: "config (complete_promise p m s) = config s"
  by (simp add: complete_promise_def Let_def config_waiting)

lemma complete_promise_promises:
  "promises (complete_promise p m s) = (promises s)(p \<mapsto> Fulfilled m)"
  by (simp add: complete_promise_def Let_def promises_waiting)

lemma complete_promise_new:
  "promises s p = Some (Pending []) \<Longrightarrow>
   complete_promise p m s = s\<lparr> promises := (promises s)(p \<mapsto> Fulfilled m) \<rparr>"
  by (simp add: complete_promise_def)

lemma mode_id_new_mode [simp]: "mode_id (new_mode cls env modeId r) = modeId"
  by (simp add: mode_id_def new_mode_def createModeDescriptor_def)







lemma configureModeById_noop:
  "Objects_equals (or_empty (config_read (config s) modeId))
     (Objects_mixin (Objects_clone (or_empty (config_read (config s) modeId))) options)
   \<Longrightarrow> configureModeById env modeId options s = Returned s"
  by (simp add: configureModeById_def)


text \<open>\<open>_getOrCreateMode\<close>, case by case.\<close>

lemma private_throws:
  "hasOwnProperty (instantiatedModes s) modeId = Not_a_function
   \<Longrightarrow> getOrCreateMode_private env modeId s = Throw s"
  by (simp add: getOrCreateMode_private_def)


lemma private_activating:
  "hasOwnProperty (instantiatedModes s) modeId = No_own_property
   \<Longrightarrow> hasOwnProperty (activationPromises s) modeId = Own_property p
   \<Longrightarrow> getOrCreateMode_private env modeId s = Return (Activation p) s"
  by (simp add: getOrCreateMode_private_def)

lemma private_compat:
  assumes "hasOwnProperty (instantiatedModes s) modeId = No_own_property"
    and "hasOwnProperty (activationPromises s) modeId = No_own_property"
    and "getCompatMode env modeId = Some d"
  shows "getOrCreateMode_private env modeId s =
           Return (Activation (next_ref s))
             (s\<lparr> next_ref := Suc (next_ref s),
                 promises := (promises s)(next_ref s \<mapsto> Pending []),
                 activationPromises := js_assign (activationPromises s) modeId (next_ref s),
                 activated := activated s @ [''onLanguage:'' @ modeId],
                 pendingCreations := pendingCreations s @ [(modeId, next_ref s)] \<rparr>)"
  using assms
  by (simp add: getOrCreateMode_private_def createMode_def activateByEvent_def Let_def)

lemma private_frankenstein_new:
  assumes "hasOwnProperty (instantiatedModes s) modeId = No_own_property"
    and "hasOwnProperty (activationPromises s) modeId = No_own_property"
    and "getCompatMode env modeId = None"
    and "hasOwnProperty (frankensteinModes s) modeId = No_own_property"
  shows "getOrCreateMode_private env modeId s =
           Return (Activation (next_ref s))
             (s\<lparr> next_ref := Suc (Suc (next_ref s)),
                 promises := (promises s)(next_ref s \<mapsto>
                    Fulfilled (new_mode (FrankensteinMode env) env modeId (Suc (next_ref s)))),
                 activationPromises :=
                   js_delete (js_assign (activationPromises s) modeId (next_ref s)) modeId,
                 created := created s
                    @ [new_mode (FrankensteinMode env) env modeId (Suc (next_ref s))],
                 frankensteinModes := js_assign (frankensteinModes s) modeId
                    (new_mode (FrankensteinMode env) env modeId (Suc (next_ref s))),
                 activated := activated s @ [''onLanguage:'' @ modeId],
                 instantiatedModes := js_assign (instantiatedModes s) modeId
                    (new_mode (FrankensteinMode env) env modeId (Suc (next_ref s))) \<rparr>)"
  using assms
  by (simp add: getOrCreateMode_private_def createMode_def getOrCreateFrankensteinMode_def
      createInstance_def activateByEvent_def createMode_done_def complete_promise_def
      new_mode_def Let_def)


lemma private_frankenstein_throws:
  assumes "hasOwnProperty (instantiatedModes s) modeId = No_own_property"
    and "hasOwnProperty (activationPromises s) modeId = No_own_property"
    and "getCompatMode env modeId = None"
    and "hasOwnProperty (frankensteinModes s) modeId = Not_a_function"
  shows "getOrCreateMode_private env modeId s =
           Throw (s\<lparr> next_ref := Suc (next_ref s),
                 promises := (promises s)(next_ref s \<mapsto> Pending []),
                 activationPromises := js_assign (activationPromises s) modeId (next_ref s) \<rparr>)"
  using assms
  by (simp add: getOrCreateMode_private_def createMode_def getOrCreateFrankensteinMode_def
      Let_def)

text \<open>A compatibility mode, once its creation has ended.\<close>

lemma compatMode_created_promise:
  assumes "(modeId, p) \<in> set (pendingCreations s)"
  shows "promises (compatMode_created env modeId p cls s) p
           = Some (Fulfilled (new_mode cls env modeId (next_ref s)))"
    and "js_get (instantiatedModes (compatMode_created env modeId p cls s)) modeId
           = Some (new_mode cls env modeId (next_ref s))"
    and "created (compatMode_created env modeId p cls s)
           = created s @ [new_mode cls env modeId (next_ref s)]"
  using assms
  by (simp_all add: compatMode_created_def createInstance_def createMode_done_def
      complete_promise_promises complete_promise_fields new_mode_def js_get_assign
      Let_def split_beta)


text \<open>
  A request for the mode id \<open>__proto__\<close>: no dictionary gets an own property, so the next
  request finds the service as the first one did.
\<close>

lemma registerModeSupport_frankenstein_new:
  assumes "hasOwnProperty (instantiatedModes s) modeId = No_own_property"
    and "hasOwnProperty (activationPromises s) modeId = No_own_property"
    and "getCompatMode env modeId = None"
    and "hasOwnProperty (frankensteinModes s) modeId = No_own_property"
    and "class_registerSupport (FrankensteinMode env)"
  shows "registerModeSupport env modeId support callback s =
           Return (Completed (SupportDisposable (Suc (next_ref s)) support))
             (s\<lparr> next_ref := Suc (Suc (next_ref s)),
                 promises := (promises s)(next_ref s \<mapsto>
                    Fulfilled (new_mode (FrankensteinMode env) env modeId (Suc (next_ref s)))),
                 activationPromises :=
                   js_delete (js_assign (activationPromises s) modeId (next_ref s)) modeId,
                 created := created s
                    @ [new_mode (FrankensteinMode env) env modeId (Suc (next_ref s))],
                 frankensteinModes := js_assign (frankensteinModes s) modeId
                    (new_mode (FrankensteinMode env) env modeId (Suc (next_ref s))),
                 activated := activated s @ [''onLanguage:'' @ modeId],
                 instantiatedModes := js_assign (instantiatedModes s) modeId
                    (new_mode (FrankensteinMode env) env modeId (Suc (next_ref s))),
                 registered := registered s @ [(Suc (next_ref s), support, callback)] \<rparr>)"
  using assms
  by (simp add: registerModeSupport_def private_frankenstein_new registerSupport_on_def
      new_mode_def)

lemma proto_absent_new: "proto_absent new_object"
  by (simp add: proto_absent_def new_object_def)

lemma proto_absent_assign: "proto_absent obj \<Longrightarrow> proto_absent (js_assign obj ''__proto__'' v)"
  by (simp add: proto_absent_def js_assign_def)

lemma proto_absent_delete: "proto_absent obj \<Longrightarrow> proto_absent (js_delete obj ''__proto__'')"
  by (simp add: proto_absent_def js_delete_def)

lemma proto_absent_hasOwnProperty:
  "proto_absent obj \<Longrightarrow> hasOwnProperty obj ''__proto__'' = No_own_property"
  by (simp add: proto_absent_def hasOwnProperty_def)

lemma registerModeSupport_proto:
  assumes "proto_absent (instantiatedModes s)"
    and "proto_absent (activationPromises s)"
    and "proto_absent (frankensteinModes s)"
    and "getCompatMode env ''__proto__'' = None"
    and "class_registerSupport (FrankensteinMode env)"
  shows "result_value (registerModeSupport env ''__proto__'' support callback s)
           = Some (Completed (SupportDisposable (Suc (next_ref s)) support))"
    and "created (result_state (registerModeSupport env ''__proto__'' support callback s))
           = created s @ [new_mode (FrankensteinMode env) env ''__proto__'' (Suc (next_ref s))]"
    and "registered (result_state (registerModeSupport env ''__proto__'' support callback s))
           = registered s @ [(Suc (next_ref s), support, callback)]"
    and "next_ref (result_state (registerModeSupport env ''__proto__'' support callback s))
           = Suc (Suc (next_ref s))"
    and "proto_absent
           (instantiatedModes (result_state (registerModeSupport env ''__proto__'' support callback s)))"
    and "proto_absent
           (activationPromises (result_state (registerModeSupport env ''__proto__'' support callback s)))"
    and "proto_absent
           (frankensteinModes (result_state (registerModeSupport env ''__proto__'' support callback s)))"
    and "js_get (instantiatedModes
             (result_state (registerModeSupport env ''__proto__'' support callback s))) ''__proto__''
           = Some (new_mode (FrankensteinMode env) env ''__proto__'' (Suc (next_ref s)))"
  using assms
  by (simp_all add: registerModeSupport_frankenstein_new proto_absent_hasOwnProperty
      proto_absent_assign proto_absent_delete js_get_assign)

lemma createMode_proto:
  assumes "proto_absent (frankensteinModes s)"
    and "getCompatMode env ''__proto__'' = None"
  shows "result_value (createMode env ''__proto__'' s)
           = Some (Some (new_mode (FrankensteinMode env) env ''__proto__'' (next_ref s)))"
    and "created (result_state (createMode env ''__proto__'' s))
           = created s @ [new_mode (FrankensteinMode env) env ''__proto__'' (next_ref s)]"
    and "next_ref (result_state (createMode env ''__proto__'' s)) = Suc (next_ref s)"
    and "proto_absent (frankensteinModes (result_state (createMode env ''__proto__'' s)))"
  using assms
  by (simp_all add: createMode_def getOrCreateFrankensteinMode_def createInstance_def
      activateByEvent_def new_mode_def proto_absent_hasOwnProperty proto_absent_assign Let_def)

lemma mode_env0_fields:
  "getCompatMode mode_env0 ''__proto__'' = None"
  "getCompatMode mode_env0 ''html'' = None"
  "getCompatMode mode_env0 ''plaintext'' = None"
  "getCompatMode mode_env0 ''javascript'' = Some (''vs/languages/javascript'', ''JSMode'')"
  "class_registerSupport (FrankensteinMode mode_env0)"
  "\<not> class_configSupport (FrankensteinMode mode_env0)"
  "getWorkerParticipants mode_env0 x = []"
  "extractModeIds mode_env0 ''text/html,text/plain'' = [''html'', ''plaintext'']"
  "extractModeIds mode_env0 ''html'' = [''html'']"
  "extractModeIds mode_env0 ''javascript'' = [''javascript'']"
  "extractModeIds mode_env0 ''nothing'' = []"
  "getModeIdsFromLanguageName mode_env0 ''HTML'' = [''html'']"
  "getModeIdsFromLanguageName mode_env0 ''Klingon'' = []"
  "getModeIdsFromFilenameOrFirstLine mode_env0 ''a.js'' None = [''javascript'']"
  "getModeIdsFromFilenameOrFirstLine mode_env0 ''a.xyz'' None = []"
  by (simp_all add: mode_env0_def List.map_filter_def split_commas_def known_mode_def)

lemma new_mode_proto [simp]:
  "new_mode (FrankensteinMode mode_env0) mode_env0 ''__proto__'' r = proto_mode r"
  by (simp add: new_mode_def proto_mode_def mode_env0_def createModeDescriptor_def)

lemma ModeServiceImpl_new_fields:
  "instantiatedModes ModeServiceImpl_new = new_object"
  "activationPromises ModeServiceImpl_new = new_object"
  "frankensteinModes ModeServiceImpl_new = new_object"
  "config ModeServiceImpl_new = new_config"
  "next_ref ModeServiceImpl_new = 0"
  "created ModeServiceImpl_new = []"
  "registered ModeServiceImpl_new = []"
  "configured ModeServiceImpl_new = []"
  "promises ModeServiceImpl_new = Map.empty"
  "pendingCreations ModeServiceImpl_new = []"
  "\<not> pluginsReady ModeServiceImpl_new"
  "deferred ModeServiceImpl_new = []"
  by (simp_all add: ModeServiceImpl_new_def)

lemma private_proto_compat:
  assumes "proto_absent (instantiatedModes s)"
    and "proto_absent (activationPromises s)"
    and "getCompatMode env ''__proto__'' = Some d"
  shows "result_value (getOrCreateMode_private env ''__proto__'' s) = Some (Activation (next_ref s))"
    and "promises (result_state (getOrCreateMode_private env ''__proto__'' s))
           = (promises s)(next_ref s \<mapsto> Pending [])"
    and "pendingCreations (result_state (getOrCreateMode_private env ''__proto__'' s))
           = pendingCreations s @ [(''__proto__'', next_ref s)]"
    and "next_ref (result_state (getOrCreateMode_private env ''__proto__'' s)) = Suc (next_ref s)"
    and "created (result_state (getOrCreateMode_private env ''__proto__'' s)) = created s"
    and "proto_absent (instantiatedModes (result_state (getOrCreateMode_private env ''__proto__'' s)))"
    and "proto_absent (activationPromises (result_state (getOrCreateMode_private env ''__proto__'' s)))"
  using assms
  by (simp_all add: private_compat proto_absent_hasOwnProperty proto_absent_assign)

text \<open>
  C1. On the code the claim fails for the mode id \<open>__proto__\<close>: every request creates a mode
  instance. Registering a code lens support for \<open>__proto__\<close> on a new service creates the
  Frankenstein mode at reference 1 and instantiates it (it is what
  \<open>this._instantiatedModes['__proto__']\<close> reads), but \<open>hasOwnProperty\<close> still answers false
  for the key; registering a second one creates another mode instance, at reference 3,
  with the same mode id, and attaches the support to that one. With a registry that has a
  compatibility mode for the id, a second request made while the first activation is
  pending does not return the pending promise but starts a second activation, and the
  thread service creates two instances of the mode.
\<close>

theorem proto_mode_instantiated_twice:
  "result_value proto_codeLens_once = Some (Completed (SupportDisposable 1 ''codeLensSupport''))
   \<and> created (result_state proto_codeLens_once) = [proto_mode 1]
   \<and> js_get (instantiatedModes (result_state proto_codeLens_once)) ''__proto__''
       = Some (proto_mode 1)
   \<and> hasOwnProperty (instantiatedModes (result_state proto_codeLens_once)) ''__proto__''
       = No_own_property
   \<and> hasOwnProperty (activationPromises (result_state proto_codeLens_once)) ''__proto__''
       = No_own_property
   \<and> result_value proto_codeLens_twice = Some (Completed (SupportDisposable 3 ''codeLensSupport''))
   \<and> created (result_state proto_codeLens_twice) = [proto_mode 1, proto_mode 3]
   \<and> map mode_id (created (result_state proto_codeLens_twice)) = [''__proto__'', ''__proto__'']
   \<and> js_get (instantiatedModes (result_state proto_codeLens_twice)) ''__proto__''
       = Some (proto_mode 3)
   \<and> proto_mode 1 \<noteq> proto_mode 3
   \<and> result_value proto_compat_once = Some (Activation 0)
   \<and> promises (result_state proto_compat_once) 0 = Some (Pending [])
   \<and> result_value proto_compat_twice = Some (Activation 1)
   \<and> promises (result_state proto_compat_twice) 0 = Some (Pending [])
   \<and> pendingCreations (result_state proto_compat_twice) = [(''__proto__'', 0), (''__proto__'', 1)]
   \<and> map mode_id (created proto_compat_created) = [''__proto__'', ''__proto__'']
   \<and> map mode_ref (created proto_compat_created) = [2, 3]"
proof -
  note env = mode_env0_fields(1,5)
  note new = ModeServiceImpl_new_fields proto_absent_new
  have a: "proto_absent (instantiatedModes (ModeServiceImpl_new :: nat support_callback mode_service))"
    "proto_absent (activationPromises (ModeServiceImpl_new :: nat support_callback mode_service))"
    "proto_absent (frankensteinModes (ModeServiceImpl_new :: nat support_callback mode_service))"
    by (simp_all add: new)
  note once = registerModeSupport_proto [OF a env, of "''codeLensSupport''" "Given 7",
      folded registerCodeLensSupport_def proto_codeLens_once_def]
  note twice = registerModeSupport_proto [OF once(5,6,7) env, of "''codeLensSupport''" "Given 7",
      folded registerCodeLensSupport_def proto_codeLens_twice_def]
  have c: "getCompatMode mode_env1 ''__proto__'' = Some (''vs/languages/any'', ''AnyMode'')"
    by (simp add: mode_env1_def)
  note compat_once = private_proto_compat [OF a(1,2) c, folded proto_compat_once_def]
  note compat_twice = private_proto_compat [OF compat_once(6,7) c, folded proto_compat_twice_def]
  have first: "created (compatMode_created mode_env1 ''__proto__'' 0
          \<lparr> class_configSupport = False, class_registerSupport = False \<rparr>
          (result_state proto_compat_twice))
       = [new_mode \<lparr> class_configSupport = False, class_registerSupport = False \<rparr>
            mode_env1 ''__proto__'' 2]"
    and pending: "pendingCreations (compatMode_created mode_env1 ''__proto__'' 0
          \<lparr> class_configSupport = False, class_registerSupport = False \<rparr>
          (result_state proto_compat_twice)) = [(''__proto__'', 1)]"
    and ref: "next_ref (compatMode_created mode_env1 ''__proto__'' 0
          \<lparr> class_configSupport = False, class_registerSupport = False \<rparr>
          (result_state proto_compat_twice)) = 3"
    by (simp_all add: compatMode_created_def createInstance_def createMode_done_def
        complete_promise_fields compat_twice compat_once new new_mode_def Let_def)
  have "created proto_compat_created
       = [new_mode \<lparr> class_configSupport = False, class_registerSupport = False \<rparr>
            mode_env1 ''__proto__'' 2,
          new_mode \<lparr> class_configSupport = False, class_registerSupport = False \<rparr>
            mode_env1 ''__proto__'' 3]"
    unfolding proto_compat_created_def
    by (simp add: compatMode_created_promise(3) pending first ref)
  then have created: "map mode_id (created proto_compat_created) = [''__proto__'', ''__proto__'']"
    "map mode_ref (created proto_compat_created) = [2, 3]"
    by (simp_all add: new_mode_def mode_id_def createModeDescriptor_def)
  show ?thesis
    by (simp add: once twice new proto_absent_hasOwnProperty mode_id_def proto_mode_def
        compat_once compat_twice created)
qed

text \<open>
  C5. On the code the claim fails for the mode id \<open>__proto__\<close>, which has no compatibility
  mode: \<open>_createMode\<close> creates a new Frankenstein mode whenever it is called, because
  \<open>this._frankensteinModes.hasOwnProperty('__proto__')\<close> never becomes true. Two calls of
  \<open>_createMode\<close> on a new service return the modes at references 0 and 1; a tokenization
  support and a rich edit support registered one after the other for \<open>__proto__\<close> are
  attached to two different Frankenstein modes, at references 1 and 3.
\<close>

theorem proto_frankenstein_mode_created_twice:
  "getCompatMode mode_env0 ''__proto__'' = None
   \<and> result_value proto_createMode_once = Some (Some (proto_mode 0))
   \<and> hasOwnProperty (frankensteinModes (result_state proto_createMode_once)) ''__proto__''
       = No_own_property
   \<and> result_value proto_createMode_twice = Some (Some (proto_mode 1))
   \<and> created (result_state proto_createMode_twice) = [proto_mode 0, proto_mode 1]
   \<and> result_value proto_tokenization
       = Some (Completed (SupportDisposable 1 ''tokenizationSupport''))
   \<and> result_value proto_richEdit = Some (Completed (SupportDisposable 3 ''richEditSupport''))
   \<and> registered (result_state proto_richEdit)
       = [(1, ''tokenizationSupport'', Given 7),
          (3, ''richEditSupport'', Built ''RichEditSupport'' ''__proto__'' 8)]
   \<and> created (result_state proto_richEdit) = [proto_mode 1, proto_mode 3]"
proof -
  note env = mode_env0_fields(1,5)
  note new = ModeServiceImpl_new_fields proto_absent_new
  have a: "proto_absent (instantiatedModes (ModeServiceImpl_new :: nat support_callback mode_service))"
    "proto_absent (activationPromises (ModeServiceImpl_new :: nat support_callback mode_service))"
    "proto_absent (frankensteinModes (ModeServiceImpl_new :: nat support_callback mode_service))"
    by (simp_all add: new)
  note first = registerModeSupport_proto [OF a env, of "''tokenizationSupport''" "Given 7",
      folded registerTokenizationSupport_def proto_tokenization_def]
  note second = registerModeSupport_proto [OF first(5,6,7) env, of "''richEditSupport''"
      "Built ''RichEditSupport'' ''__proto__'' 8",
      folded registerRichEditSupport_def proto_richEdit_def]
  note once = createMode_proto [OF a(3) env(1), folded proto_createMode_once_def]
  note twice = createMode_proto [OF once(4) env(1), folded proto_createMode_twice_def]
  show ?thesis
    by (simp add: first second once twice new env proto_absent_hasOwnProperty numeral_3_eq_3)
qed

lemma or_plaintext_nonempty: "or_plaintext r \<noteq> []"
  by (simp add: or_plaintext_def split: option.splits)

lemma plugins_ready_one:
  "plugins_ready env (s\<lparr> deferred := [call] \<rparr>)
   = result_state (run_deferred env call (s\<lparr> pluginsReady := True, deferred := [] \<rparr>))"
  by (simp add: plugins_ready_def)


text \<open>The concrete services.\<close>

lemma mode_service_ready_fields:
  "pluginsReady mode_service_ready"
  "deferred mode_service_ready = []"
  "instantiatedModes mode_service_ready = new_object"
  "activationPromises mode_service_ready = new_object"
  "frankensteinModes mode_service_ready = new_object"
  "config mode_service_ready = new_config"
  "next_ref mode_service_ready = 0"
  "created mode_service_ready = []"
  "promises mode_service_ready = Map.empty"
  "pendingCreations mode_service_ready = []"
  "configured mode_service_ready = []"
  "registered mode_service_ready = []"
  by (simp_all add: mode_service_ready_def plugins_ready_def ModeServiceImpl_new_def)

lemma getModeId_env0:
  "getModeId mode_env0 ''javascript'' = Some ''javascript''"
  "getModeId mode_env0 ''text/html,text/plain'' = Some ''html''"
  "getModeId mode_env0 ''html'' = Some ''html''"
  "getModeId mode_env0 ''nothing'' = None"
  by (simp_all add: getModeId_def mode_env0_fields)

lemma mode_service_js_waiting_eq:
  "getOrCreateMode mode_env0 ''javascript'' mode_service_ready
   = (Activation 0, mode_service_js_waiting)"
  "mode_service_js_waiting =
     mode_service_ready
       \<lparr> next_ref := Suc 0, promises := [0 \<mapsto> Pending []],
         activationPromises := js_assign new_object ''javascript'' 0,
         activated := [''onLanguage:javascript''],
         pendingCreations := [(''javascript'', 0)] \<rparr>"
proof -
  have "getOrCreateMode_private mode_env0 ''javascript'' mode_service_ready
    = Return (Activation 0)
       (mode_service_ready
       \<lparr> next_ref := Suc 0, promises := [0 \<mapsto> Pending []],
         activationPromises := js_assign new_object ''javascript'' 0,
         activated := [''onLanguage:javascript''],
         pendingCreations := [(''javascript'', 0)] \<rparr>)"
    using private_compat [of mode_service_ready "''javascript''" mode_env0]
    by (simp add: mode_service_ready_fields mode_env0_fields)
      (simp add: mode_service_ready_def plugins_ready_def ModeServiceImpl_new_def)
  then have "getOrCreateMode mode_env0 ''javascript'' mode_service_ready
    = (Activation 0, mode_service_ready
       \<lparr> next_ref := Suc 0, promises := [0 \<mapsto> Pending []],
         activationPromises := js_assign new_object ''javascript'' 0,
         activated := [''onLanguage:javascript''],
         pendingCreations := [(''javascript'', 0)] \<rparr>)"
    by (simp add: getOrCreateMode_def when_ready_def run_deferred_def as_promise_def
        mode_service_ready_fields getModeId_env0 or_plaintext_def)
  then show "mode_service_js_waiting =
     mode_service_ready
       \<lparr> next_ref := Suc 0, promises := [0 \<mapsto> Pending []],
         activationPromises := js_assign new_object ''javascript'' 0,
         activated := [''onLanguage:javascript''],
         pendingCreations := [(''javascript'', 0)] \<rparr>"
    and "getOrCreateMode mode_env0 ''javascript'' mode_service_ready
   = (Activation 0, mode_service_js_waiting)"
    by (simp_all add: mode_service_js_waiting_def)
qed

lemma mode_service_js_waiting_fields:
  "pluginsReady mode_service_js_waiting"
  "instantiatedModes mode_service_js_waiting = new_object"
  "activationPromises mode_service_js_waiting = js_assign new_object ''javascript'' 0"
  "frankensteinModes mode_service_js_waiting = new_object"
  "config mode_service_js_waiting = new_config"
  "next_ref mode_service_js_waiting = Suc 0"
  "created mode_service_js_waiting = []"
  "promises mode_service_js_waiting = [0 \<mapsto> Pending []]"
  "pendingCreations mode_service_js_waiting = [(''javascript'', 0)]"
  "configured mode_service_js_waiting = []"
  by (simp_all add: mode_service_js_waiting_eq(2) mode_service_ready_fields)

lemma hasOwnProperty_javascript:
  "hasOwnProperty (js_assign new_object ''javascript'' v) ''javascript'' = Own_property v"
  by (simp add: hasOwnProperty_def js_assign_def new_object_def)







lemma mode_service_js_fields:
  "instantiatedModes mode_service_js = js_assign new_object ''javascript'' js_mode"
  "config mode_service_js = new_config"
  "configured mode_service_js = [(1, Json (JObject fmempty))]"
  "created mode_service_js = [js_mode]"
  "promises mode_service_js = [0 \<mapsto> Fulfilled js_mode]"
  "pluginsReady mode_service_js"
proof -
  have c: "getConfigurationForMode s ''javascript'' = Json (JObject fmempty)"
    if "config s = new_config" for s :: "nat support_callback mode_service"
    using that
    by (simp add: getConfigurationForMode_def config_read_def new_config_def
        inherited_from_Object_def Object_prototype_members_def or_empty_def truthy_def)
  show "instantiatedModes mode_service_js = js_assign new_object ''javascript'' js_mode"
    "config mode_service_js = new_config"
    "configured mode_service_js = [(1, Json (JObject fmempty))]"
    "created mode_service_js = [js_mode]"
    "promises mode_service_js = [0 \<mapsto> Fulfilled js_mode]"
    "pluginsReady mode_service_js"
    by (simp_all add: mode_service_js_def compatMode_created_def createInstance_def
        createMode_done_def complete_promise_fields complete_promise_config
        complete_promise_promises mode_service_js_waiting_fields c js_mode_def
        createModeDescriptor_def mode_env0_fields Let_def)
qed

lemma or_empty_simps:
  "or_empty Undefined = Json (JObject fmempty)"
  "truthy v \<Longrightarrow> or_empty v = v"
  by (simp_all add: or_empty_def truthy_def)

lemma options0_facts:
  "options0 \<noteq> Json (JObject fmempty)"
  "options0 \<noteq> Object_prototype"
  "truthy options0"
  "Objects_mixin (Objects_clone (Json (JObject fmempty))) options0 = options0"
  "Objects_mixin (Objects_clone options0) options0 = options0"
proof -
  have "fmlookup (fmupd ''tabSize'' (JNumber 4) fmempty) ''tabSize'' \<noteq> fmlookup fmempty ''tabSize''"
    by simp
  then have "fmupd ''tabSize'' (JNumber 4) fmempty \<noteq> fmempty"
    by metis
  then show "options0 \<noteq> Json (JObject fmempty)"
    by (simp add: options0_def)
  show "options0 \<noteq> Object_prototype" "truthy options0"
    "Objects_mixin (Objects_clone (Json (JObject fmempty))) options0 = options0"
    "Objects_mixin (Objects_clone options0) options0 = options0"
    by (simp_all add: options0_def truthy_def Objects_clone_def Objects_mixin_def
        mixin_keys_empty mixin_keys_self)
qed

lemma config_read_new: "config_read new_config ''javascript'' = Undefined"
  by (simp add: config_read_def new_config_def inherited_from_Object_def
      Object_prototype_members_def)

lemma mode_service_js_configured_fields:
  "config mode_service_js_configured = config_assign new_config ''javascript'' options0"
  "configured mode_service_js_configured = [(1, Json (JObject fmempty)), (1, options0)]"
proof -
  have e: "\<not> Objects_equals (Json (JObject fmempty)) options0"
    using options0_facts(1,2) by (auto simp: Objects_equals_def no_keys_def dest: sym)
  have g: "getMode mode_env0 ''javascript''
             (mode_service_js\<lparr> config := config_assign new_config ''javascript'' options0 \<rparr>)
           = Return (Some js_mode)
               (mode_service_js\<lparr> config := config_assign new_config ''javascript'' options0 \<rparr>)"
    by (simp add: getMode_def mode_env0_fields mode_service_js_fields hasOwnProperty_javascript)
  have r: "config_read (config_assign new_config ''javascript'' options0) ''javascript'' = options0"
    by (simp add: config_read_assign)
  have "configureModeById mode_env0 ''javascript'' options0 mode_service_js
    = Returned (mode_service_js
        \<lparr> config := config_assign new_config ''javascript'' options0,
          configured := [(1, Json (JObject fmempty)), (1, options0)] \<rparr>)"
    using e
    by (simp add: configureModeById_def mode_service_js_fields config_read_new or_empty_simps
        options0_facts g getConfigurationForMode_def r js_mode_def Let_def)
  then show "config mode_service_js_configured = config_assign new_config ''javascript'' options0"
    "configured mode_service_js_configured = [(1, Json (JObject fmempty)), (1, options0)]"
    by (simp_all add: mode_service_js_configured_def)
qed



text \<open>
  A mode id \<open>hasOwnProperty\<close>. Once a support has been registered for it, the mode is an own
  property \<open>hasOwnProperty\<close> of \<open>_instantiatedModes\<close>, and every later request throws.
\<close>

lemma hasOwnProperty_mode_breaks_requests:
  "result_value (registerCodeLensSupport mode_env0 ''hasOwnProperty'' 7 mode_service_ready)
     = Some (Completed (SupportDisposable 1 ''codeLensSupport''))"
  "getOrCreateMode_private mode_env0 x mode_service_shadowed = Throw mode_service_shadowed"
  "getOrCreateMode mode_env0 x mode_service_shadowed
     = (Rejected_by_TypeError, mode_service_shadowed)"
  "getMode mode_env0 ''html'' mode_service_shadowed = Throw mode_service_shadowed"
proof -
  have c: "getCompatMode mode_env0 ''hasOwnProperty'' = None"
    by (simp add: mode_env0_def)
  note r = registerModeSupport_frankenstein_new [of mode_service_ready "''hasOwnProperty''"
      mode_env0 "''codeLensSupport''" "Given 7", folded registerCodeLensSupport_def]
  have e: "registerCodeLensSupport mode_env0 ''hasOwnProperty'' 7 mode_service_ready
      = Return (Completed (SupportDisposable (Suc 0) ''codeLensSupport''))
          (result_state (registerCodeLensSupport mode_env0 ''hasOwnProperty'' 7 mode_service_ready))"
    and i: "instantiatedModes mode_service_shadowed
      = js_assign new_object ''hasOwnProperty''
          (new_mode (FrankensteinMode mode_env0) mode_env0 ''hasOwnProperty'' (Suc 0))"
    and p: "pluginsReady mode_service_shadowed"
    unfolding mode_service_shadowed_def
    by (simp_all add: r mode_service_ready_fields mode_env0_fields c)
  show "result_value (registerCodeLensSupport mode_env0 ''hasOwnProperty'' 7 mode_service_ready)
     = Some (Completed (SupportDisposable 1 ''codeLensSupport''))"
    by (subst e) simp
  have h: "hasOwnProperty (instantiatedModes mode_service_shadowed) key = Not_a_function" for key
    by (simp add: i hasOwnProperty_shadowed)
  show t: "getOrCreateMode_private mode_env0 x mode_service_shadowed = Throw mode_service_shadowed"
    for x
    by (simp add: private_throws h)
  show "getOrCreateMode mode_env0 x mode_service_shadowed
     = (Rejected_by_TypeError, mode_service_shadowed)"
    by (simp add: getOrCreateMode_def when_ready_def run_deferred_def as_promise_def p t)
  show "getMode mode_env0 ''html'' mode_service_shadowed = Throw mode_service_shadowed"
    by (simp add: getMode_def mode_env0_fields h)
qed

text \<open>The fourteen public registrations, each one call of \<open>registerModeSupport\<close>.\<close>

lemma registrations:
  "registerCodeLensSupport env modeId a
     = registerModeSupport env modeId ''codeLensSupport'' (Given a)"
  "registerRichEditSupport env modeId a
     = registerModeSupport env modeId ''richEditSupport'' (Built ''RichEditSupport'' modeId a)"
  "registerDeclarativeDeclarationSupport env modeId a
     = registerModeSupport env modeId ''declarationSupport''
         (Built ''DeclarationSupport'' modeId a)"
  "registerExtraInfoSupport env modeId a
     = registerModeSupport env modeId ''extraInfoSupport'' (Given a)"
  "registerFormattingSupport env modeId a
     = registerModeSupport env modeId ''formattingSupport'' (Given a)"
  "registerInplaceReplaceSupport env modeId a
     = registerModeSupport env modeId ''inplaceReplaceSupport'' (Given a)"
  "registerOccurrencesSupport env modeId a
     = registerModeSupport env modeId ''occurrencesSupport'' (Given a)"
  "registerOutlineSupport env modeId a
     = registerModeSupport env modeId ''outlineSupport'' (Given a)"
  "registerDeclarativeParameterHintsSupport env modeId a
     = registerModeSupport env modeId ''parameterHintsSupport''
         (Built ''ParameterHintsSupport'' modeId a)"
  "registerQuickFixSupport env modeId a
     = registerModeSupport env modeId ''quickFixSupport'' (Given a)"
  "registerDeclarativeReferenceSupport env modeId a
     = registerModeSupport env modeId ''referenceSupport'' (Built ''ReferenceSupport'' modeId a)"
  "registerRenameSupport env modeId a
     = registerModeSupport env modeId ''renameSupport'' (Given a)"
  "registerDeclarativeSuggestSupport env modeId a
     = registerModeSupport env modeId ''suggestSupport'' (Built ''SuggestSupport'' modeId a)"
  "registerTokenizationSupport env modeId callback
     = registerModeSupport env modeId ''tokenizationSupport'' callback"
  by (simp_all add: registerCodeLensSupport_def registerRichEditSupport_def
      registerDeclarativeDeclarationSupport_def registerExtraInfoSupport_def
      registerFormattingSupport_def registerInplaceReplaceSupport_def
      registerOccurrencesSupport_def registerOutlineSupport_def
      registerDeclarativeParameterHintsSupport_def registerQuickFixSupport_def
      registerDeclarativeReferenceSupport_def registerRenameSupport_def
      registerDeclarativeSuggestSupport_def registerTokenizationSupport_def)

text \<open>
  A registration for a mode whose activation is pending waits for the mode: the support
  is attached when the thread service has created a mode that offers \<open>registerSupport\<close>,
  and nothing is attached to a mode that does not.
\<close>

lemma registerModeSupport_waits:
  "result_value (registerRichEditSupport mode_env0 ''javascript'' 8 mode_service_js_waiting)
     = Some Unsettled"
  "registered
     (compatMode_created mode_env0 ''javascript'' 0
        \<lparr> class_configSupport = True, class_registerSupport = True \<rparr>
        (result_state (registerRichEditSupport mode_env0 ''javascript'' 8 mode_service_js_waiting)))
     = [(1, ''richEditSupport'', Built ''RichEditSupport'' ''javascript'' 8)]"
  "registered
     (compatMode_created mode_env0 ''javascript'' 0
        \<lparr> class_configSupport = True, class_registerSupport = False \<rparr>
        (result_state (registerRichEditSupport mode_env0 ''javascript'' 8 mode_service_js_waiting)))
     = []"
proof -
  have p: "getOrCreateMode_private mode_env0 ''javascript'' mode_service_js_waiting
       = Return (Activation 0) mode_service_js_waiting"
    by (rule private_activating)
      (simp_all add: mode_service_js_waiting_fields hasOwnProperty_javascript)
  have r: "registerRichEditSupport mode_env0 ''javascript'' 8 mode_service_js_waiting
       = Return Unsettled
           (mode_service_js_waiting
              \<lparr> promises := [0 \<mapsto> Pending
                   [(''javascript'', ''richEditSupport'',
                     Built ''RichEditSupport'' ''javascript'' 8)]] \<rparr>)"
    by (simp add: registerRichEditSupport_def registerModeSupport_def p
        mode_service_js_waiting_fields)
  show "result_value (registerRichEditSupport mode_env0 ''javascript'' 8 mode_service_js_waiting)
     = Some Unsettled"
    by (simp add: r)
  show "registered
     (compatMode_created mode_env0 ''javascript'' 0
        \<lparr> class_configSupport = True, class_registerSupport = True \<rparr>
        (result_state (registerRichEditSupport mode_env0 ''javascript'' 8 mode_service_js_waiting)))
     = [(1, ''richEditSupport'', Built ''RichEditSupport'' ''javascript'' 8)]"
    by (simp add: r compatMode_created_def createInstance_def createMode_done_def
        complete_promise_def registerSupport_on_def mode_service_js_waiting_fields Let_def)
      (simp add: mode_service_js_waiting_eq(2) mode_service_ready_fields)
  show "registered
     (compatMode_created mode_env0 ''javascript'' 0
        \<lparr> class_configSupport = True, class_registerSupport = False \<rparr>
        (result_state (registerRichEditSupport mode_env0 ''javascript'' 8 mode_service_js_waiting)))
     = []"
    by (simp add: r compatMode_created_def createInstance_def createMode_done_def
        complete_promise_def registerSupport_on_def mode_service_js_waiting_fields Let_def)
      (simp add: mode_service_js_waiting_eq(2) mode_service_ready_fields)
qed

text \<open>\<open>configureMode\<close> and \<open>configureAllModes\<close> on the concrete services.\<close>

lemma configureMode_example:
  "configureMode mode_env0 ''nothing'' options0 mode_service_js = Returned mode_service_js"
  "configureMode mode_env0 ''javascript'' options0 mode_service_js
     = configureModeById mode_env0 ''javascript'' options0 mode_service_js"
  "configureAllModes mode_env0 None mode_service_js = Returned mode_service_js"
  "configured
     (state_of (configureAllModes mode_env0
        (Some (\<lambda>modeIdentifier. if modeIdentifier = ''javascript'' then options0 else Undefined))
        mode_service_js))
     = [(1, Json (JObject fmempty)), (1, options0)]"
proof -
  show "configureMode mode_env0 ''nothing'' options0 mode_service_js = Returned mode_service_js"
    "configureMode mode_env0 ''javascript'' options0 mode_service_js
     = configureModeById mode_env0 ''javascript'' options0 mode_service_js"
    "configureAllModes mode_env0 None mode_service_js = Returned mode_service_js"
    by (simp_all add: configureMode_def configureAllModes_def getModeId_env0)
  have u: "config_read new_config key = Undefined"
    if "key = ''plaintext'' \<or> key = ''html''" for key
    using that
    by (auto simp: config_read_def new_config_def inherited_from_Object_def
        Object_prototype_members_def)
  have noop: "configureModeById mode_env0 key Undefined mode_service_js = Returned mode_service_js"
    if "key = ''plaintext'' \<or> key = ''html''" for key
    by (rule configureModeById_noop)
      (simp add: mode_service_js_fields u [OF that] or_empty_simps Objects_clone_def
        Objects_mixin_def Objects_equals_def)
  have reg: "getRegisteredModes mode_env0 = [''plaintext'', ''html'', ''javascript'']"
    by (simp add: mode_env0_def)
  have "configureAllModes mode_env0
        (Some (\<lambda>modeIdentifier. if modeIdentifier = ''javascript'' then options0 else Undefined))
        mode_service_js
      = configureModeById mode_env0 ''javascript'' options0 mode_service_js"
    by (cases "configureModeById mode_env0 ''javascript'' options0 mode_service_js")
      (simp_all add: configureAllModes_def reg noop)
  then show "configured
     (state_of (configureAllModes mode_env0
        (Some (\<lambda>modeIdentifier. if modeIdentifier = ''javascript'' then options0 else Undefined))
        mode_service_js))
     = [(1, Json (JObject fmempty)), (1, options0)]"
    using mode_service_js_configured_fields(2)
    by (simp add: mode_service_js_configured_def)
qed


end
